theory Spec2Isabelle
  imports Main
begin

section \<open>JavaScript values, as far as server.js handles them\<close>

text \<open>
  The classifier's answer is whatever \<^verbatim>\<open>JSON.parse\<close> returns, so order data is an
  arbitrary JSON value. \<open>JUndefined\<close> is the value of a missing property. A number is
  carried by its decimal rendering (\<^verbatim>\<open>String(n)\<close>): server.js only tests numbers for
  truthiness and interpolates them into text.
\<close>

datatype js_value =
    JUndefined
  | JNull
  | JBool bool
  | JNum string
  | JStr string
  | JArr "js_value list"
  | JObj "(string \<times> js_value) list"

text \<open>
  What a failing step raises: a \<^verbatim>\<open>TypeError\<close> (property of null or undefined, call of a
  non-function), the \<^verbatim>\<open>SyntaxError\<close> of \<^verbatim>\<open>JSON.parse\<close>, the rejection of an HTTP request
  or API call, and the \<^verbatim>\<open>Error('Google Sheets not configured')\<close> of the header setup.
\<close>

datatype js_error = TypeError | SyntaxError | RequestFailed | NotConfigured

text \<open>Sequencing of the pure steps that may raise (member access, method calls).\<close>

definition bind_r :: "js_error + 'a \<Rightarrow> ('a \<Rightarrow> js_error + 'b) \<Rightarrow> js_error + 'b" where
  "bind_r r f = (case r of Inl e \<Rightarrow> Inl e | Inr x \<Rightarrow> f x)"

text \<open>Truthiness (\<^verbatim>\<open>if (v)\<close>, \<^verbatim>\<open>v || d\<close>): \<open>0\<close> renders both zeros; JSON has no NaN.\<close>

fun truthy :: "js_value \<Rightarrow> bool" where
  "truthy JUndefined = False"
| "truthy JNull = False"
| "truthy (JBool b) = b"
| "truthy (JNum n) = (n \<noteq> ''0'')"
| "truthy (JStr s) = (s \<noteq> [])"
| "truthy (JArr xs) = True"
| "truthy (JObj kvs) = True"

text \<open>
  Member access \<^verbatim>\<open>v.k\<close> for the keys server.js names (\<open>isOrder\<close>, \<open>customerName\<close>,
  \<open>choices\<close>, ...): none of them is a member of a prototype, so only an object's own
  entries answer; null and undefined raise.
\<close>

fun get_prop :: "js_value \<Rightarrow> string \<Rightarrow> js_error + js_value" where
  "get_prop JUndefined k = Inl TypeError"
| "get_prop JNull k = Inl TypeError"
| "get_prop (JObj kvs) k = Inr (case map_of kvs k of Some v \<Rightarrow> v | None \<Rightarrow> JUndefined)"
| "get_prop v k = Inr JUndefined"

text \<open>Element access \<^verbatim>\<open>v[0]\<close>: a string answers with its first character.\<close>

fun get_index0 :: "js_value \<Rightarrow> js_error + js_value" where
  "get_index0 JUndefined = Inl TypeError"
| "get_index0 JNull = Inl TypeError"
| "get_index0 (JArr xs) = Inr (case xs of [] \<Rightarrow> JUndefined | x # _ \<Rightarrow> x)"
| "get_index0 (JStr s) = Inr (case s of [] \<Rightarrow> JUndefined | c # _ \<Rightarrow> JStr [c])"
| "get_index0 (JObj kvs) = Inr (case map_of kvs ''0'' of Some v \<Rightarrow> v | None \<Rightarrow> JUndefined)"
| "get_index0 v = Inr JUndefined"

fun join_strs :: "string \<Rightarrow> string list \<Rightarrow> string" where
  "join_strs sep [] = []"
| "join_strs sep [x] = x"
| "join_strs sep (x # y # ys) = x @ sep @ join_strs sep (y # ys)"

text \<open>
  \<^verbatim>\<open>String(v)\<close>, which template literals, property keys and \<^verbatim>\<open>join\<close> apply. An array
  is its elements joined by a comma, with null and undefined elements empty. An object
  is converted through its \<^verbatim>\<open>toString\<close> member: the inherited one gives
  \<open>[object Object]\<close>; an own entry \<open>toString\<close> of a parsed object is data, not a
  function, and then neither it nor \<^verbatim>\<open>valueOf\<close> yields a primitive and the conversion
  raises a \<^verbatim>\<open>TypeError\<close>. Elements are converted from left to right.
\<close>

fun js_ToString :: "js_value \<Rightarrow> js_error + string"
  and elem_strings :: "js_value list \<Rightarrow> js_error + string list" where
  "js_ToString JUndefined = Inr ''undefined''"
| "js_ToString JNull = Inr ''null''"
| "js_ToString (JBool b) = Inr (if b then ''true'' else ''false'')"
| "js_ToString (JNum n) = Inr n"
| "js_ToString (JStr s) = Inr s"
| "js_ToString (JArr xs) =
     (case elem_strings xs of Inl e \<Rightarrow> Inl e | Inr strs \<Rightarrow> Inr (join_strs '','' strs))"
| "js_ToString (JObj kvs) =
     (if map_of kvs ''toString'' = None then Inr ''[object Object]'' else Inl TypeError)"
| "elem_strings [] = Inr []"
| "elem_strings (x # xs) =
     (case (if x = JUndefined \<or> x = JNull then Inr [] else js_ToString x) of
        Inl e \<Rightarrow> Inl e
      | Inr str \<Rightarrow> (case elem_strings xs of Inl e \<Rightarrow> Inl e | Inr strs \<Rightarrow> Inr (str # strs)))"

text \<open>
  The method call \<^verbatim>\<open>v.join(sep)\<close>: only an array has the method. On null and
  undefined the member access raises; on any other JSON value \<open>join\<close> is undefined or
  is data, and the call raises. On an array the call raises when the conversion of an
  element does.
\<close>

fun call_join :: "js_value \<Rightarrow> string \<Rightarrow> js_error + string" where
  "call_join (JArr xs) sep =
     (case elem_strings xs of Inl e \<Rightarrow> Inl e | Inr strs \<Rightarrow> Inr (join_strs sep strs))"
| "call_join v sep = Inl TypeError"

text \<open>
  The method call \<^verbatim>\<open>v.toUpperCase()\<close>: only a string has the method. The case
  mapping itself is the platform's and is passed in.
\<close>

fun call_toUpperCase :: "(string \<Rightarrow> string) \<Rightarrow> js_value \<Rightarrow> js_error + string" where
  "call_toUpperCase up (JStr s) = Inr (up s)"
| "call_toUpperCase up v = Inl TypeError"

section \<open>Data of the service\<close>

text \<open>
  A message of the provider's listing, with the fields server.js reads. The provider
  is taken to honour its listing format: every element is a message object whose
  fields are strings.
\<close>

record message =
  m_id :: string
  m_direction :: string
  m_from :: string
  m_body :: string
  m_createdAt :: string

text \<open>
  \<^verbatim>\<open>CONFIG\<close>: each entry but the time zone is read from the process environment,
  where a variable is a string or absent.
\<close>

record config =
  OPENPHONE_API_KEY :: "string option"
  OPENAI_API_KEY :: "string option"
  GOOGLE_SHEETS_CREDENTIALS :: "string option"
  SLACK_WEBHOOK_URL :: "string option"
  GOOGLE_SHEET_ID :: "string option"

definition TIMEZONE :: string where
  "TIMEZONE = ''America/New_York''"

text \<open>\<^verbatim>\<open>!CONFIG.X\<close>: an absent variable and the empty string are falsy.\<close>

fun unset :: "string option \<Rightarrow> bool" where
  "unset None = True"
| "unset (Some s) = (s = [])"

text \<open>
  The marker in front of a Slack notification. \<open>Rotating_light\<close>, \<open>High_voltage\<close> and
  \<open>Clipboard\<close> name the three pictograph strings of the \<^verbatim>\<open>urgencyEmoji\<close> table;
  \<open>Inherited k\<close> is the member \<open>k\<close> that the table inherits from \<^verbatim>\<open>Object.prototype\<close>.
\<close>

datatype marker = Rotating_light | High_voltage | Clipboard | Inherited string

definition urgencyEmoji :: "(string \<times> marker) list" where
  "urgencyEmoji = [(''urgent'', Rotating_light), (''asap'', High_voltage), (''normal'', Clipboard)]"

definition Object_prototype_keys :: "string list" where
  "Object_prototype_keys =
     [''constructor'', ''__defineGetter__'', ''__defineSetter__'', ''hasOwnProperty'',
      ''__lookupGetter__'', ''__lookupSetter__'', ''isPrototypeOf'', ''propertyIsEnumerable'',
      ''toString'', ''valueOf'', ''__proto__'', ''toLocaleString'']"

text \<open>\<^verbatim>\<open>urgencyEmoji[key] || clipboard\<close>: every inherited member is truthy.\<close>

definition emoji_for :: "string \<Rightarrow> marker" where
  "emoji_for key =
     (case map_of urgencyEmoji key of
        Some e \<Rightarrow> e
      | None \<Rightarrow> if key \<in> set Object_prototype_keys then Inherited key else Clipboard)"

text \<open>
  The Slack payload, by the values interpolated into its fixed block layout, in the
  order of the layout.
\<close>

record slack_message =
  sl_emoji :: marker
  sl_customer :: string
  sl_phone :: string
  sl_products :: string
  sl_quantities :: string
  sl_total :: string
  sl_urgency :: string
  sl_special :: string
  sl_original :: string
  sl_received :: string
  sl_message_id :: string

text \<open>The lines the service writes to the console, by their fixed text and arguments.\<close>

datatype console_line =
    Credentials_not_provided
  | Sheets_initialized
  | Failed_to_initialize_Sheets
  | OpenPhone_key_not_provided
  | Error_fetching_messages
  | OpenAI_key_not_provided
  | Error_analyzing_message js_error
  | Sheets_not_configured
  | Order_logged_to_Sheets
  | Error_logging_to_Sheets js_error
  | Slack_URL_not_provided
  | Notification_sent_to_Slack
  | Error_sending_Slack js_error
  | Starting_processing nat
  | Found_new_messages nat
  | Processing_message string string
  | Order_detected string
  | Order_processed_successfully string
  | Order_processed_with_issues string
  | No_order_detected string
  | Processing_completed nat
  | Error_in_processing js_error
  | Headers_setup_completed
  | Error_setting_up_headers js_error

text \<open>
  Everything a run does that is visible from outside, in order: console lines, reads
  of the clock (\<^verbatim>\<open>new Date()\<close>), requests to the four services, and, for the
  accounting of the claims, each call of \<^verbatim>\<open>processedMessageIds.add\<close> and each entry
  into the classifier and the two sinks with the message passed.
\<close>

datatype component = Classifier | OrderLedger | AlertChannel

datatype event =
    Console console_line
  | Clock_read nat
  | OpenPhone_get nat nat
  | OpenAI_post message
  | Sheets_append string "js_value list list"
  | Sheets_update string "string list list"
  | Slack_post string slack_message
  | Set_add string
  | Entered component message

text \<open>
  The world outside the process. A reply may depend on everything that happened
  before it (the trace up to and including the request), so the same request can be
  answered differently at different times. The platform's own functions
  (\<^verbatim>\<open>toLocaleString\<close>, \<^verbatim>\<open>Date\<close> parsing, \<^verbatim>\<open>toUpperCase\<close>, \<^verbatim>\<open>JSON.parse\<close>) are parameters too.
\<close>

datatype get_outcome = Get_rejected | Get_resolved "message list option"

datatype post_outcome = Post_rejected | Post_resolved js_value

record env =
  clock :: "event list \<Rightarrow> nat"
  toLocaleString :: "string \<Rightarrow> nat \<Rightarrow> string"
  Date_parse :: "string \<Rightarrow> nat option"
  toUpperCase :: "string \<Rightarrow> string"
  JSON_parse :: "string \<Rightarrow> js_value option"
  google_client :: "js_value \<Rightarrow> bool"
  openphone_get :: "event list \<Rightarrow> get_outcome"
  openai_post :: "event list \<Rightarrow> post_outcome"
  values_append :: "event list \<Rightarrow> bool"
  values_update :: "event list \<Rightarrow> bool"
  slack_post :: "event list \<Rightarrow> bool"

text \<open>
  The state of the process: the service object's dedup set and Sheets client (present
  or not), the module's \<^verbatim>\<open>lastProcessedTime\<close>, and the trace so far.
\<close>

record sys =
  processedMessageIds :: "string set"
  sheets :: bool
  lastProcessedTime :: nat
  trace :: "event list"

section \<open>Computations that may raise\<close>

text \<open>
  A step of the program takes the state and yields a completion, \<open>Inl\<close> an exception
  raised or \<open>Inr\<close> a value returned, with the state it leaves. A rejected promise
  under \<^verbatim>\<open>await\<close> is an exception raised.
\<close>

type_synonym 'a comp = "sys \<Rightarrow> (js_error + 'a) \<times> sys"

definition ret :: "'a \<Rightarrow> 'a comp" where
  "ret x = (\<lambda>s. (Inr x, s))"

definition raise :: "js_error \<Rightarrow> 'a comp" where
  "raise e = (\<lambda>s. (Inl e, s))"

definition and_then :: "'a comp \<Rightarrow> ('a \<Rightarrow> 'b comp) \<Rightarrow> 'b comp" where
  "and_then m f = (\<lambda>s. case m s of (Inl e, s') \<Rightarrow> (Inl e, s') | (Inr x, s') \<Rightarrow> f x s')"

definition try_catch :: "'a comp \<Rightarrow> (js_error \<Rightarrow> 'a comp) \<Rightarrow> 'a comp" where
  "try_catch m h = (\<lambda>s. case m s of (Inl e, s') \<Rightarrow> h e s' | (Inr x, s') \<Rightarrow> (Inr x, s'))"

definition lift :: "js_error + 'a \<Rightarrow> 'a comp" where
  "lift r = (\<lambda>s. (r, s))"

definition emit :: "event \<Rightarrow> unit comp" where
  "emit e = (\<lambda>s. (Inr (), s\<lparr>trace := trace s @ [e]\<rparr>))"

text \<open>\<^verbatim>\<open>new Date()\<close>: the clock is read, and the read is an event.\<close>

definition new_Date :: "env \<Rightarrow> nat comp" where
  "new_Date ev = (\<lambda>s. let t = clock ev (trace s) in (Inr t, s\<lparr>trace := trace s @ [Clock_read t]\<rparr>))"

text \<open>A request to a service whose promise resolves without a value or rejects.\<close>

definition request :: "event \<Rightarrow> (event list \<Rightarrow> bool) \<Rightarrow> unit comp" where
  "request e reply =
     (\<lambda>s. let s' = s\<lparr>trace := trace s @ [e]\<rparr>
          in if reply (trace s') then (Inr (), s') else (Inl RequestFailed, s'))"


definition str_of :: "string option \<Rightarrow> string" where
  "str_of v = (case v of None \<Rightarrow> [] | Some s \<Rightarrow> s)"

text \<open>\<^verbatim>\<open>JSON.parse(v)\<close> converts its argument to a string first.\<close>

definition js_JSON_parse :: "env \<Rightarrow> js_value \<Rightarrow> js_error + js_value" where
  "js_JSON_parse ev v =
     bind_r (js_ToString v) (\<lambda>txt.
     case JSON_parse ev txt of None \<Rightarrow> Inl SyntaxError | Some a \<Rightarrow> Inr a)"

section \<open>The service\<close>

subsection \<open>Start of the process\<close>

text \<open>
  \<^verbatim>\<open>initializeGoogleSheets\<close>: without credentials the client stays absent; otherwise the
  credentials are parsed and the client is built (\<open>google_client\<close> tells whether the
  library builds one or raises), and whatever is raised is caught and logged.
\<close>

definition initializeGoogleSheets :: "config \<Rightarrow> env \<Rightarrow> unit comp" where
  "initializeGoogleSheets cfg ev =
     try_catch
       (if unset (GOOGLE_SHEETS_CREDENTIALS cfg) then emit (Console Credentials_not_provided)
        else and_then (lift (js_JSON_parse ev (JStr (str_of (GOOGLE_SHEETS_CREDENTIALS cfg)))))
               (\<lambda>credentials.
                  if google_client ev credentials
                  then and_then (\<lambda>s. (Inr (), s\<lparr>sheets := True\<rparr>))
                         (\<lambda>_. emit (Console Sheets_initialized))
                  else raise TypeError))
       (\<lambda>e. emit (Console Failed_to_initialize_Sheets))"

text \<open>
  Loading the module reads the clock into \<^verbatim>\<open>lastProcessedTime\<close>; the constructor
  starts from the empty dedup set and initialises the Sheets client.
\<close>

definition startup :: "config \<Rightarrow> env \<Rightarrow> sys" where
  "startup cfg ev =
     snd (initializeGoogleSheets cfg ev
       \<lparr>processedMessageIds = {}, sheets = False,
        lastProcessedTime = clock ev [], trace = [Clock_read (clock ev [])]\<rparr>)"

subsection \<open>Fetching\<close>

text \<open>
  The GET request with \<^verbatim>\<open>limit: 50\<close> and \<^verbatim>\<open>createdAfter: lastProcessedTime\<close>. It raises
  when the request is rejected or the response carries no body to read \<^verbatim>\<open>data\<close> from;
  \<open>Get_resolved None\<close> is a body whose \<^verbatim>\<open>data\<close> is missing or falsy. A listing that is
  there is an array of message objects, as the provider documents it. The code does
  not check this: on a \<^verbatim>\<open>data\<close> that is truthy and not iterable, or on an element that is
  null, the loop of \<^verbatim>\<open>processMessages\<close> raises a \<^verbatim>\<open>TypeError\<close> that its outer \<^verbatim>\<open>catch\<close>
  logs. Such listings are outside this model, and the properties below are about
  well-formed listings.
\<close>

definition axios_get_messages :: "env \<Rightarrow> (message list option) comp" where
  "axios_get_messages ev =
     (\<lambda>s. let s' = s\<lparr>trace := trace s @ [OpenPhone_get 50 (lastProcessedTime s)]\<rparr>
          in case openphone_get ev (trace s') of
               Get_rejected \<Rightarrow> (Inl RequestFailed, s')
             | Get_resolved d \<Rightarrow> (Inr d, s'))"

definition fetchOpenPhoneMessages :: "config \<Rightarrow> env \<Rightarrow> (message list) comp" where
  "fetchOpenPhoneMessages cfg ev =
     try_catch
       (if unset (OPENPHONE_API_KEY cfg)
        then and_then (emit (Console OpenPhone_key_not_provided)) (\<lambda>_. ret [])
        else and_then (axios_get_messages ev)
               (\<lambda>d. ret (case d of None \<Rightarrow> [] | Some ms \<Rightarrow> ms)))
       (\<lambda>e. and_then (emit (Console Error_fetching_messages)) (\<lambda>_. ret []))"

subsection \<open>Classifying\<close>

definition not_an_order :: js_value where
  "not_an_order = JObj [(''isOrder'', JBool False)]"

text \<open>The POST to the chat-completions endpoint; the prompt is fixed by the message.\<close>

definition axios_post_openai :: "env \<Rightarrow> message \<Rightarrow> js_value comp" where
  "axios_post_openai ev message =
     (\<lambda>s. let s' = s\<lparr>trace := trace s @ [OpenAI_post message]\<rparr>
          in case openai_post ev (trace s') of
               Post_rejected \<Rightarrow> (Inl RequestFailed, s')
             | Post_resolved d \<Rightarrow> (Inr d, s'))"

text \<open>\<^verbatim>\<open>response.data.choices[0].message.content\<close>\<close>

definition response_content :: "js_value \<Rightarrow> js_error + js_value" where
  "response_content d =
     bind_r (get_prop d ''choices'') (\<lambda>choices.
     bind_r (get_index0 choices) (\<lambda>choice.
     bind_r (get_prop choice ''message'') (\<lambda>msg.
     get_prop msg ''content'')))"

definition analyzeMessageForOrder :: "config \<Rightarrow> env \<Rightarrow> message \<Rightarrow> js_value comp" where
  "analyzeMessageForOrder cfg ev message =
     and_then (emit (Entered Classifier message)) (\<lambda>_.
     try_catch
       (if unset (OPENAI_API_KEY cfg)
        then and_then (emit (Console OpenAI_key_not_provided)) (\<lambda>_. ret not_an_order)
        else and_then (axios_post_openai ev message) (\<lambda>d.
             and_then (lift (response_content d)) (\<lambda>content.
             and_then (lift (js_JSON_parse ev content)) (\<lambda>analysis.
             ret analysis))))
       (\<lambda>e. and_then (emit (Console (Error_analyzing_message e))) (\<lambda>_. ret not_an_order)))"

subsection \<open>The ledger sink\<close>

text \<open>The row literal of \<^verbatim>\<open>logOrderToSheet\<close>, evaluated left to right.\<close>

definition order_row :: "string \<Rightarrow> js_value \<Rightarrow> message \<Rightarrow> js_error + js_value list" where
  "order_row timestamp orderData originalMessage =
     bind_r (get_prop orderData ''customerName'') (\<lambda>customerName.
     bind_r (get_prop orderData ''customerPhone'') (\<lambda>customerPhone.
     bind_r (get_prop orderData ''products'') (\<lambda>products.
     bind_r (call_join products '', '') (\<lambda>products_joined.
     bind_r (get_prop orderData ''quantities'') (\<lambda>quantities.
     bind_r (call_join quantities '', '') (\<lambda>quantities_joined.
     bind_r (get_prop orderData ''totalAmount'') (\<lambda>totalAmount.
     bind_r (get_prop orderData ''specialRequests'') (\<lambda>specialRequests.
     bind_r (get_prop orderData ''urgency'') (\<lambda>urgency.
     Inr [JStr timestamp, customerName, customerPhone, JStr products_joined,
          JStr quantities_joined, totalAmount, specialRequests, urgency,
          JStr (m_body originalMessage), JStr (m_id originalMessage),
          JStr ''Pending''])))))))))"

text \<open>The \<^verbatim>\<open>try\<close> block of \<^verbatim>\<open>logOrderToSheet\<close>, then the function with its \<^verbatim>\<open>catch\<close>.\<close>

definition logOrderToSheet_try :: "config \<Rightarrow> env \<Rightarrow> js_value \<Rightarrow> message \<Rightarrow> bool comp" where
  "logOrderToSheet_try cfg ev orderData originalMessage =
     (\<lambda>s. if \<not> sheets s \<or> unset (GOOGLE_SHEET_ID cfg)
          then and_then (emit (Console Sheets_not_configured)) (\<lambda>_. ret False) s
          else and_then (new_Date ev) (\<lambda>now.
               and_then (lift (order_row (toLocaleString ev TIMEZONE now)
                                 orderData originalMessage)) (\<lambda>row.
               and_then (request (Sheets_append (str_of (GOOGLE_SHEET_ID cfg)) [row])
                                 (values_append ev)) (\<lambda>_.
               and_then (emit (Console Order_logged_to_Sheets)) (\<lambda>_.
               ret True)))) s)"

definition logOrderToSheet :: "config \<Rightarrow> env \<Rightarrow> js_value \<Rightarrow> message \<Rightarrow> bool comp" where
  "logOrderToSheet cfg ev orderData originalMessage =
     and_then (emit (Entered OrderLedger originalMessage)) (\<lambda>_.
     try_catch (logOrderToSheet_try cfg ev orderData originalMessage)
       (\<lambda>e. and_then (emit (Console (Error_logging_to_Sheets e))) (\<lambda>_. ret False)))"

subsection \<open>The alert sink\<close>

text \<open>
  \<^verbatim>\<open>new Date(createdAt).toLocaleString('en-US', {timeZone})\<close>: a text that is no
  date gives the invalid date, which formats as \<open>Invalid Date\<close>.
\<close>

definition received_at :: "env \<Rightarrow> string \<Rightarrow> string" where
  "received_at ev createdAt =
     (case Date_parse ev createdAt of
        None \<Rightarrow> ''Invalid Date''
      | Some t \<Rightarrow> toLocaleString ev TIMEZONE t)"

text \<open>
  The payload of \<^verbatim>\<open>sendSlackNotification\<close>, its interpolations in source order. The key
  of the marker table and every interpolated value are converted to text, which may
  raise.
\<close>

definition slack_payload :: "env \<Rightarrow> js_value \<Rightarrow> message \<Rightarrow> js_error + slack_message" where
  "slack_payload ev orderData originalMessage =
     bind_r (get_prop orderData ''urgency'') (\<lambda>urgency_key.
     bind_r (js_ToString urgency_key) (\<lambda>emoji_key.
     bind_r (get_prop orderData ''customerName'') (\<lambda>customerName.
     bind_r (js_ToString customerName) (\<lambda>customer.
     bind_r (get_prop orderData ''customerPhone'') (\<lambda>customerPhone.
     bind_r (js_ToString customerPhone) (\<lambda>phone.
     bind_r (get_prop orderData ''products'') (\<lambda>products.
     bind_r (call_join products '', '') (\<lambda>products_joined.
     bind_r (get_prop orderData ''quantities'') (\<lambda>quantities.
     bind_r (call_join quantities '', '') (\<lambda>quantities_joined.
     bind_r (get_prop orderData ''totalAmount'') (\<lambda>totalAmount.
     bind_r (js_ToString totalAmount) (\<lambda>total.
     bind_r (get_prop orderData ''urgency'') (\<lambda>urgency.
     bind_r (call_toUpperCase (toUpperCase ev) urgency) (\<lambda>urgency_upper.
     bind_r (get_prop orderData ''specialRequests'') (\<lambda>specialRequests.
     bind_r (if truthy specialRequests then js_ToString specialRequests
             else Inr ''None'') (\<lambda>special.
     Inr \<lparr>sl_emoji = emoji_for emoji_key,
          sl_customer = customer,
          sl_phone = phone,
          sl_products = products_joined,
          sl_quantities = quantities_joined,
          sl_total = total,
          sl_urgency = urgency_upper,
          sl_special = special,
          sl_original = m_body originalMessage,
          sl_received = received_at ev (m_createdAt originalMessage),
          sl_message_id = m_id originalMessage\<rparr>))))))))))))))))"

text \<open>The \<^verbatim>\<open>try\<close> block of \<^verbatim>\<open>sendSlackNotification\<close>, then the function with its \<^verbatim>\<open>catch\<close>.\<close>

definition sendSlackNotification_try :: "config \<Rightarrow> env \<Rightarrow> js_value \<Rightarrow> message \<Rightarrow> bool comp" where
  "sendSlackNotification_try cfg ev orderData originalMessage =
     (if unset (SLACK_WEBHOOK_URL cfg)
      then and_then (emit (Console Slack_URL_not_provided)) (\<lambda>_. ret False)
      else and_then (lift (slack_payload ev orderData originalMessage)) (\<lambda>payload.
           and_then (request (Slack_post (str_of (SLACK_WEBHOOK_URL cfg)) payload)
                             (slack_post ev)) (\<lambda>_.
           and_then (emit (Console Notification_sent_to_Slack)) (\<lambda>_.
           ret True))))"

definition sendSlackNotification :: "config \<Rightarrow> env \<Rightarrow> js_value \<Rightarrow> message \<Rightarrow> bool comp" where
  "sendSlackNotification cfg ev orderData originalMessage =
     and_then (emit (Entered AlertChannel originalMessage)) (\<lambda>_.
     try_catch (sendSlackNotification_try cfg ev orderData originalMessage)
       (\<lambda>e. and_then (emit (Console (Error_sending_Slack e))) (\<lambda>_. ret False)))"

subsection \<open>The run\<close>

text \<open>\<^verbatim>\<open>this.processedMessageIds.add(id)\<close>\<close>

definition mark_processed :: "string \<Rightarrow> unit comp" where
  "mark_processed i =
     (\<lambda>s. (Inr (), s\<lparr>processedMessageIds := insert i (processedMessageIds s),
                      trace := trace s @ [Set_add i]\<rparr>))"

text \<open>
  The body of the \<^verbatim>\<open>for\<close> loop of \<^verbatim>\<open>processMessages\<close>, for one message. Reading
  \<^verbatim>\<open>analysis.isOrder\<close> is a member access and raises on null.
\<close>

definition loop_body :: "config \<Rightarrow> env \<Rightarrow> message \<Rightarrow> unit comp" where
  "loop_body cfg ev message =
     (\<lambda>s. if m_id message \<in> processedMessageIds s then ret () s
          else if m_direction message \<noteq> ''inbound'' then mark_processed (m_id message) s
          else
            and_then (emit (Console (Processing_message (m_id message) (m_from message)))) (\<lambda>_.
            and_then (analyzeMessageForOrder cfg ev message) (\<lambda>analysis.
            and_then (lift (get_prop analysis ''isOrder'')) (\<lambda>isOrder.
            and_then
              (if truthy isOrder
               then and_then (emit (Console (Order_detected (m_id message)))) (\<lambda>_.
                    and_then (logOrderToSheet cfg ev analysis message) (\<lambda>sheetSuccess.
                    and_then (sendSlackNotification cfg ev analysis message) (\<lambda>slackSuccess.
                    if sheetSuccess \<and> slackSuccess
                    then emit (Console (Order_processed_successfully (m_id message)))
                    else emit (Console (Order_processed_with_issues (m_id message))))))
               else emit (Console (No_order_detected (m_id message)))) (\<lambda>_.
            mark_processed (m_id message))))) s)"

text \<open>The loop: the messages in the order returned; an exception leaves it.\<close>

fun for_of :: "('a \<Rightarrow> unit comp) \<Rightarrow> 'a list \<Rightarrow> unit comp" where
  "for_of body [] = ret ()"
| "for_of body (x # xs) = and_then (body x) (\<lambda>_. for_of body xs)"

definition set_lastProcessedTime :: "nat \<Rightarrow> unit comp" where
  "set_lastProcessedTime t = (\<lambda>s. (Inr (), s\<lparr>lastProcessedTime := t\<rparr>))"

text \<open>
  \<^verbatim>\<open>processMessages\<close>. The function has no \<^verbatim>\<open>return\<close> statement: its promise resolves
  to \<^verbatim>\<open>undefined\<close>.
\<close>

definition processMessages :: "config \<Rightarrow> env \<Rightarrow> js_value comp" where
  "processMessages cfg ev =
     and_then (new_Date ev) (\<lambda>started.
     and_then (emit (Console (Starting_processing started))) (\<lambda>_.
     and_then
       (try_catch
          (and_then (fetchOpenPhoneMessages cfg ev) (\<lambda>messages.
           and_then (emit (Console (Found_new_messages (length messages)))) (\<lambda>_.
           and_then (for_of (loop_body cfg ev) messages) (\<lambda>_.
           and_then (new_Date ev) (\<lambda>now.
           and_then (set_lastProcessedTime now) (\<lambda>_.
           and_then (new_Date ev) (\<lambda>completed.
           emit (Console (Processing_completed completed)))))))))
          (\<lambda>e. emit (Console (Error_in_processing e)))) (\<lambda>_.
     ret JUndefined)))"

subsection \<open>Header setup and the operations of the service\<close>

definition sheet_headers :: "string list" where
  "sheet_headers =
     [''Timestamp'', ''Customer Name'', ''Customer Phone'', ''Products'', ''Quantities'',
      ''Total Amount'', ''Special Requests'', ''Urgency'', ''Original Message'',
      ''Message ID'', ''Status'']"

text \<open>\<^verbatim>\<open>setupGoogleSheetHeaders\<close> logs what it catches and raises it again.\<close>

definition setupGoogleSheetHeaders :: "config \<Rightarrow> env \<Rightarrow> bool comp" where
  "setupGoogleSheetHeaders cfg ev =
     try_catch
       (\<lambda>s. if \<not> sheets s \<or> unset (GOOGLE_SHEET_ID cfg) then raise NotConfigured s
            else and_then (request (Sheets_update (str_of (GOOGLE_SHEET_ID cfg)) [sheet_headers])
                                   (values_update ev)) (\<lambda>_.
                 and_then (emit (Console Headers_setup_completed)) (\<lambda>_.
                 ret True)) s)
       (\<lambda>e. and_then (emit (Console (Error_setting_up_headers e))) (\<lambda>_. raise e))"

text \<open>
  What the scheduler and the HTTP routes make the service object do after start:
  a run (both cron schedules and \<^verbatim>\<open>/process-now\<close>) or the header setup
  (\<^verbatim>\<open>/setup-sheets\<close>). Here one operation ends before the next begins. The code
  has no lock, so a run that is still waiting for a reply when the next trigger fires
  overlaps with the new run; overlapping runs are not modelled, and what is proved of
  sequences of operations is proved of operations that do not overlap.
\<close>

datatype operation = Run | Setup_sheets

fun perform :: "config \<Rightarrow> env \<Rightarrow> operation \<Rightarrow> sys \<Rightarrow> sys" where
  "perform cfg ev Run s = snd (processMessages cfg ev s)"
| "perform cfg ev Setup_sheets s = snd (setupGoogleSheetHeaders cfg ev s)"

fun perform_all :: "config \<Rightarrow> env \<Rightarrow> operation list \<Rightarrow> sys \<Rightarrow> sys" where
  "perform_all cfg ev [] s = s"
| "perform_all cfg ev (op # ops) s = perform_all cfg ev ops (perform cfg ev op s)"


section \<open>Notions for stating the properties\<close>

text \<open>The events a step added to the trace.\<close>

definition new_events :: "sys \<Rightarrow> sys \<Rightarrow> event list" where
  "new_events s s' = drop (length (trace s)) (trace s')"

fun is_Entered :: "event \<Rightarrow> bool" where
  "is_Entered (Entered c m) = True"
| "is_Entered e = False"

fun is_Set_add :: "event \<Rightarrow> bool" where
  "is_Set_add (Set_add i) = True"
| "is_Set_add e = False"

fun is_Sheets_append :: "event \<Rightarrow> bool" where
  "is_Sheets_append (Sheets_append sid rows) = True"
| "is_Sheets_append e = False"

text \<open>
  The events that the classifier and the sinks add after their entry: anything but a
  call of \<^verbatim>\<open>add\<close> or another entry.
\<close>

fun inner_event :: "event \<Rightarrow> bool" where
  "inner_event (Set_add i) = False"
| "inner_event (Entered c m) = False"
| "inner_event e = True"

text \<open>The state in which a run calls \<^verbatim>\<open>fetchOpenPhoneMessages\<close>.\<close>

definition at_fetch :: "env \<Rightarrow> sys \<Rightarrow> sys" where
  "at_fetch ev s =
     snd (and_then (new_Date ev) (\<lambda>started. emit (Console (Starting_processing started))) s)"

text \<open>The fetch call of the run from \<open>s\<close> fails: the key is there and the GET raises.\<close>

definition fetch_fails :: "config \<Rightarrow> env \<Rightarrow> sys \<Rightarrow> bool" where
  "fetch_fails cfg ev s =
     (\<not> unset (OPENPHONE_API_KEY cfg) \<and>
      fst (axios_get_messages ev (at_fetch ev s)) = Inl RequestFailed)"

text \<open>The batch that the run from \<open>s\<close> iterates over.\<close>

definition batch_of :: "config \<Rightarrow> env \<Rightarrow> sys \<Rightarrow> js_error + message list" where
  "batch_of cfg ev s = fst (fetchOpenPhoneMessages cfg ev (at_fetch ev s))"

text \<open>
  What the loop body, reaching \<open>message\<close> in state \<open>s\<close>, gets back from the classifier,
  and the reply to the POST it sends when the key is set.
\<close>

definition analysis_of :: "config \<Rightarrow> env \<Rightarrow> message \<Rightarrow> sys \<Rightarrow> js_error + js_value" where
  "analysis_of cfg ev message s =
     fst (analyzeMessageForOrder cfg ev message
            (snd (emit (Console (Processing_message (m_id message) (m_from message))) s)))"

definition loop_reply :: "env \<Rightarrow> message \<Rightarrow> sys \<Rightarrow> post_outcome" where
  "loop_reply ev message s =
     openai_post ev
       (trace s @ [Console (Processing_message (m_id message) (m_from message)),
                   Entered Classifier message, OpenAI_post message])"

text \<open>
  For a message that takes the order branch with the judgment \<open>a\<close>: the state in
  which the loop body calls \<^verbatim>\<open>logOrderToSheet\<close> and what the call returns
  (\<^verbatim>\<open>sheetSuccess\<close>), then the state in which it calls \<^verbatim>\<open>sendSlackNotification\<close>.
\<close>

definition at_ledger :: "config \<Rightarrow> env \<Rightarrow> message \<Rightarrow> sys \<Rightarrow> sys" where
  "at_ledger cfg ev message s =
     snd (emit (Console (Order_detected (m_id message)))
       (snd (analyzeMessageForOrder cfg ev message
          (snd (emit (Console (Processing_message (m_id message) (m_from message))) s)))))"

definition sheetSuccess_of ::
    "config \<Rightarrow> env \<Rightarrow> message \<Rightarrow> js_value \<Rightarrow> sys \<Rightarrow> js_error + bool" where
  "sheetSuccess_of cfg ev message a s =
     fst (logOrderToSheet cfg ev a message (at_ledger cfg ev message s))"

definition at_alert :: "config \<Rightarrow> env \<Rightarrow> message \<Rightarrow> js_value \<Rightarrow> sys \<Rightarrow> sys" where
  "at_alert cfg ev message a s =
     snd (logOrderToSheet cfg ev a message (at_ledger cfg ev message s))"

text \<open>The content of a reply, parsed: what the \<^verbatim>\<open>try\<close> block of the classifier returns.\<close>

definition parsed_content :: "env \<Rightarrow> js_value \<Rightarrow> js_error + js_value" where
  "parsed_content ev d = bind_r (response_content d) (js_JSON_parse ev)"

text \<open>
  The classifier fails on the message the loop body reaches in state \<open>s\<close>: the POST is
  rejected, or the reply has no content to read, or its content is not JSON.
\<close>

definition classifier_fails :: "env \<Rightarrow> message \<Rightarrow> sys \<Rightarrow> bool" where
  "classifier_fails ev message s =
     (case loop_reply ev message s of
        Post_rejected \<Rightarrow> True
      | Post_resolved d \<Rightarrow> (case parsed_content ev d of Inl e \<Rightarrow> True | Inr a \<Rightarrow> False))"

text \<open>\<^verbatim>\<open>if (analysis.isOrder)\<close> takes the order branch.\<close>

definition is_order :: "js_value \<Rightarrow> bool" where
  "is_order a = (case get_prop a ''isOrder'' of Inl e \<Rightarrow> False | Inr v \<Rightarrow> truthy v)"

text \<open>
  No reply of the classifier parses to null (or to undefined, which \<^verbatim>\<open>JSON.parse\<close>
  never returns).
\<close>

definition never_null :: "env \<Rightarrow> bool" where
  "never_null ev =
     (\<forall>tr d a. openai_post ev tr = Post_resolved d \<longrightarrow> parsed_content ev d = Inr a \<longrightarrow>
        a \<noteq> JNull \<and> a \<noteq> JUndefined)"

text \<open>
  The summary of a run in the words of the specification: a value that carries the
  three counts (messages processed, orders detected, sink failures).
\<close>

fun is_count :: "js_value \<Rightarrow> bool" where
  "is_count (JNum n) = True"
| "is_count v = False"

fun is_summary :: "js_value \<Rightarrow> bool" where
  "is_summary (JObj kvs) = (3 \<le> length (filter is_count (map snd kvs)))"
| "is_summary v = False"

text \<open>
  What every step of the service keeps: the dedup set only grows and the Sheets client
  stays; the trace is extended; the classifier and the sinks are entered only for an
  inbound message whose id was not yet in the dedup set; and \<^verbatim>\<open>add\<close> is called once
  for each id that is new in the set and never for another.
\<close>

definition step_rel :: "sys \<Rightarrow> sys \<Rightarrow> bool" where
  "step_rel s s' =
     (processedMessageIds s \<subseteq> processedMessageIds s' \<and> sheets s' = sheets s \<and>
      (\<exists>evs. trace s' = trace s @ evs \<and>
         (\<forall>c m. Entered c m \<in> set evs \<longrightarrow>
            m_direction m = ''inbound'' \<and> m_id m \<notin> processedMessageIds s) \<and>
         (\<forall>i. count_list evs (Set_add i) =
            (if i \<in> processedMessageIds s' \<and> i \<notin> processedMessageIds s then 1 else 0))))"

text \<open>A computation all of whose steps, from any state, are of that kind.\<close>

definition keeps :: "'a comp \<Rightarrow> bool" where
  "keeps m = (\<forall>s. step_rel s (snd (m s)))"

section \<open>A sample world\<close>

definition sample_cfg :: config where
  "sample_cfg =
     \<lparr>OPENPHONE_API_KEY = Some ''op-key'', OPENAI_API_KEY = Some ''ai-key'',
      GOOGLE_SHEETS_CREDENTIALS = Some ''{}'',
      SLACK_WEBHOOK_URL = Some ''https://hooks.example/T1'',
      GOOGLE_SHEET_ID = Some ''sheet-1''\<rparr>"

definition msg_order :: message where
  "msg_order =
     \<lparr>m_id = ''m1'', m_direction = ''inbound'', m_from = ''+15550100'',
      m_body = ''2 dozen oysters for pickup tomorrow, this is Jane 555-1234'',
      m_createdAt = ''2026-01-05T14:00:00Z''\<rparr>"

definition msg_reply :: message where
  "msg_reply =
     \<lparr>m_id = ''m2'', m_direction = ''outbound'', m_from = ''+15550199'',
      m_body = ''Thanks Jane, see you tomorrow'',
      m_createdAt = ''2026-01-05T14:05:00Z''\<rparr>"

definition msg_hours :: message where
  "msg_hours =
     \<lparr>m_id = ''m3'', m_direction = ''inbound'', m_from = ''+15550123'',
      m_body = ''what are your hours?'',
      m_createdAt = ''2026-01-05T14:10:00Z''\<rparr>"

text \<open>Texts a classifier may answer with, and the values \<^verbatim>\<open>JSON.parse\<close> gives for them.\<close>

definition order_text :: string where
  \<open>order_text = ''{"isOrder":true,"customerName":"Jane","customerPhone":"555-1234","products":["oysters"],"quantities":["2 dozen"],"totalAmount":"TBD","specialRequests":"","urgency":"normal","extractedText":"2 dozen oysters"}''\<close>

definition order_json :: js_value where
  "order_json =
     JObj [(''isOrder'', JBool True), (''customerName'', JStr ''Jane''),
           (''customerPhone'', JStr ''555-1234''), (''products'', JArr [JStr ''oysters'']),
           (''quantities'', JArr [JStr ''2 dozen'']), (''totalAmount'', JStr ''TBD''),
           (''specialRequests'', JStr []), (''urgency'', JStr ''normal''),
           (''extractedText'', JStr ''2 dozen oysters'')]"

definition bare_order_text :: string where
  \<open>bare_order_text = ''{"isOrder":true}''\<close>

definition bare_order_json :: js_value where
  "bare_order_json = JObj [(''isOrder'', JBool True)]"

definition no_order_text :: string where
  \<open>no_order_text = ''{"isOrder": false}''\<close>

definition prose_text :: string where
  "prose_text = ''This message asks about opening hours and is not an order.''"

text \<open>
  \<^verbatim>\<open>JSON.parse\<close> on the sample texts; the sample runs parse nothing else, and the prose
  is no JSON.
\<close>

definition sample_JSON_parse :: "string \<Rightarrow> js_value option" where
  "sample_JSON_parse =
     map_of [(order_text, order_json), (bare_order_text, bare_order_json),
             (no_order_text, not_an_order), (''null'', JNull),
             (''{}'', JObj [])]"

text \<open>Upper case of the unaccented Latin letters.\<close>

definition sample_toUpperCase :: "string \<Rightarrow> string" where
  "sample_toUpperCase =
     map (\<lambda>c. case map_of (zip ''abcdefghijklmnopqrstuvwxyz'' ''ABCDEFGHIJKLMNOPQRSTUVWXYZ'') c of
                 None \<Rightarrow> c | Some u \<Rightarrow> u)"

text \<open>The body of a chat completion whose first choice has the given content.\<close>

definition completion :: "js_value \<Rightarrow> js_value" where
  "completion content =
     JObj [(''choices'',
            JArr [JObj [(''index'', JNum ''0''),
                        (''message'', JObj [(''role'', JStr ''assistant''),
                                            (''content'', content)])]])]"

text \<open>
  A world in which the provider answers the listing with \<open>listing\<close>, the classifier
  answers a message by the content that \<open>answers\<close> gives for its body (prose
  otherwise), and the ledger and the webhook accept or reject every request. The
  clock advances with every event.
\<close>

definition sample_env ::
    "get_outcome \<Rightarrow> (string \<times> js_value) list \<Rightarrow> bool \<Rightarrow> bool \<Rightarrow> env" where
  "sample_env listing answers ledger_up webhook_up =
     \<lparr>clock = (\<lambda>tr. 1000 + length tr),
      toLocaleString = (\<lambda>tz t. ''1/5/2026, 9:00:00 AM''),
      Date_parse = (\<lambda>txt. Some 990),
      toUpperCase = sample_toUpperCase,
      JSON_parse = sample_JSON_parse,
      google_client = (\<lambda>credentials. True),
      openphone_get = (\<lambda>tr. listing),
      openai_post = (\<lambda>tr. case last tr of
                             OpenAI_post m \<Rightarrow>
                               Post_resolved (completion
                                 (case map_of answers (m_body m) of
                                    None \<Rightarrow> JStr prose_text | Some c \<Rightarrow> c))
                           | _ \<Rightarrow> Post_rejected),
      values_append = (\<lambda>tr. ledger_up),
      values_update = (\<lambda>tr. ledger_up),
      slack_post = (\<lambda>tr. webhook_up)\<rparr>"

definition sample_sys :: "string set \<Rightarrow> sys" where
  "sample_sys ids =
     \<lparr>processedMessageIds = ids, sheets = True, lastProcessedTime = 900,
      trace = []\<rparr>"

section \<open>Lemmas on the steps of a run\<close>

lemmas comp_defs = and_then_def try_catch_def emit_def ret_def lift_def raise_def request_def
  new_Date_def

text \<open>The relation is a preorder, and events other than entries and adds respect it.\<close>

lemma step_rel_refl: "step_rel s s"
  by (simp add: step_rel_def)

lemma step_rel_trans:
  assumes "step_rel s s'" "step_rel s' s''"
  shows "step_rel s s''"
proof -
  from assms(1) obtain evs1 where 1: "trace s' = trace s @ evs1"
    "\<forall>c m. Entered c m \<in> set evs1 \<longrightarrow> m_direction m = ''inbound'' \<and> m_id m \<notin> processedMessageIds s"
    "\<forall>i. count_list evs1 (Set_add i) = (if i \<in> processedMessageIds s' \<and> i \<notin> processedMessageIds s then 1 else 0)"
    and p1: "processedMessageIds s \<subseteq> processedMessageIds s'" and sh1: "sheets s' = sheets s"
    unfolding step_rel_def by blast
  from assms(2) obtain evs2 where 2: "trace s'' = trace s' @ evs2"
    "\<forall>c m. Entered c m \<in> set evs2 \<longrightarrow> m_direction m = ''inbound'' \<and> m_id m \<notin> processedMessageIds s'"
    "\<forall>i. count_list evs2 (Set_add i) = (if i \<in> processedMessageIds s'' \<and> i \<notin> processedMessageIds s' then 1 else 0)"
    and p2: "processedMessageIds s' \<subseteq> processedMessageIds s''" and sh2: "sheets s'' = sheets s'"
    unfolding step_rel_def by blast
  have t: "trace s'' = trace s @ (evs1 @ evs2)" using 1(1) 2(1) by simp
  have e: "\<forall>c m. Entered c m \<in> set (evs1 @ evs2) \<longrightarrow>
      m_direction m = ''inbound'' \<and> m_id m \<notin> processedMessageIds s"
    using 1(2) 2(2) p1 by auto
  have c: "\<forall>i. count_list (evs1 @ evs2) (Set_add i) =
      (if i \<in> processedMessageIds s'' \<and> i \<notin> processedMessageIds s then 1 else 0)"
    using 1(3) 2(3) p1 p2 by auto
  show ?thesis
    unfolding step_rel_def using t e c p1 p2 sh1 sh2 by blast
qed

lemma step_rel_inner:
  assumes "list_all inner_event evs"
  shows "step_rel s (s\<lparr>trace := trace s @ evs\<rparr>)"
proof -
  have a: "\<And>c m. Entered c m \<notin> set evs" "\<And>i. Set_add i \<notin> set evs"
    using assms by (auto simp: list_all_iff)
  then have "\<And>i. count_list evs (Set_add i) = 0"
    by (simp add: count_list_0_iff)
  with a show ?thesis by (simp add: step_rel_def)
qed

text \<open>The combinators carry it.\<close>

lemma keeps_ret: "keeps (ret x)"
  by (simp add: keeps_def ret_def step_rel_refl)

lemma keeps_raise: "keeps (raise e)"
  by (simp add: keeps_def raise_def step_rel_refl)

lemma keeps_lift: "keeps (lift r)"
  by (simp add: keeps_def lift_def step_rel_refl)

lemma keeps_emit: "inner_event e \<Longrightarrow> keeps (emit e)"
  using step_rel_inner[of "[e]"] by (simp add: keeps_def emit_def)

lemma keeps_new_Date: "keeps (new_Date ev)"
  using step_rel_inner[of "[Clock_read t]" for t] by (simp add: keeps_def new_Date_def Let_def)

lemma keeps_request: "inner_event e \<Longrightarrow> keeps (request e r)"
  using step_rel_inner[of "[e]"] by (simp add: keeps_def request_def Let_def)

lemma keeps_and_then:
  assumes "keeps m" "\<And>x. keeps (f x)"
  shows "keeps (and_then m f)"
  unfolding keeps_def
proof
  fix s
  show "step_rel s (snd (and_then m f s))"
  proof (cases "m s")
    case (Pair r s')
    then have 1: "step_rel s s'" using assms(1) by (metis keeps_def snd_conv)
    show ?thesis
    proof (cases r)
      case (Inl e)
      with Pair 1 show ?thesis by (simp add: and_then_def)
    next
      case (Inr x)
      have "step_rel s' (snd (f x s'))" using assms(2) by (simp add: keeps_def)
      with 1 Pair Inr show ?thesis by (auto simp: and_then_def intro: step_rel_trans)
    qed
  qed
qed

lemma keeps_try_catch:
  assumes "keeps m" "\<And>e. keeps (h e)"
  shows "keeps (try_catch m h)"
  unfolding keeps_def
proof
  fix s
  show "step_rel s (snd (try_catch m h s))"
  proof (cases "m s")
    case (Pair r s')
    then have 1: "step_rel s s'" using assms(1) by (metis keeps_def snd_conv)
    show ?thesis
    proof (cases r)
      case (Inr x)
      with Pair 1 show ?thesis by (simp add: try_catch_def)
    next
      case (Inl e)
      have "step_rel s' (snd (h e s'))" using assms(2) by (simp add: keeps_def)
      with 1 Pair Inl show ?thesis by (auto simp: try_catch_def intro: step_rel_trans)
    qed
  qed
qed

lemma keeps_set_lastProcessedTime: "keeps (set_lastProcessedTime t)"
  by (simp add: keeps_def set_lastProcessedTime_def step_rel_def)

lemma keeps_if: "keeps a \<Longrightarrow> keeps b \<Longrightarrow> keeps (if c then a else b)"
  by simp

lemma keeps_if_state: "keeps a \<Longrightarrow> keeps b \<Longrightarrow> keeps (\<lambda>s. if c s then a s else b s)"
  by (simp add: keeps_def)

lemmas keeps_intros = keeps_try_catch keeps_and_then keeps_if keeps_if_state keeps_emit keeps_ret
  keeps_raise keeps_lift keeps_new_Date keeps_request keeps_set_lastProcessedTime

lemma keeps_axios_get: "keeps (axios_get_messages ev)"
  unfolding keeps_def
proof
  fix s
  show "step_rel s (snd (axios_get_messages ev s))"
    using step_rel_inner[of "[OpenPhone_get 50 (lastProcessedTime s)]" s]
    by (simp add: axios_get_messages_def Let_def split: get_outcome.splits)
qed

lemma keeps_fetch: "keeps (fetchOpenPhoneMessages cfg ev)"
  unfolding fetchOpenPhoneMessages_def
  by (intro keeps_intros keeps_axios_get) simp_all

lemma keeps_setup: "keeps (setupGoogleSheetHeaders cfg ev)"
  unfolding setupGoogleSheetHeaders_def
  by (intro keeps_intros) simp_all

text \<open>Reading the relation on the new events of a step.\<close>

lemma step_rel_Entered:
  "step_rel s s' \<Longrightarrow> Entered c m \<in> set (new_events s s') \<Longrightarrow>
     m_direction m = ''inbound'' \<and> m_id m \<notin> processedMessageIds s"
  by (auto simp: step_rel_def new_events_def)

lemma step_rel_Set_add:
  assumes "step_rel s s'" "i \<in> processedMessageIds s"
  shows "Set_add i \<notin> set (new_events s s')"
proof -
  from assms(1) obtain evs where t: "trace s' = trace s @ evs"
    and c: "\<forall>i. count_list evs (Set_add i) =
              (if i \<in> processedMessageIds s' \<and> i \<notin> processedMessageIds s then 1 else 0)"
    unfolding step_rel_def by blast
  have "count_list evs (Set_add i) = 0" using c assms(2) by simp
  then have "Set_add i \<notin> set evs" by (simp add: count_list_0_iff)
  with t show ?thesis by (simp add: new_events_def)
qed

lemma step_rel_count:
  assumes "step_rel s s'"
  shows "count_list (new_events s s') (Set_add i) =
     (if i \<in> processedMessageIds s' \<and> i \<notin> processedMessageIds s then 1 else 0)"
proof -
  from assms obtain evs where t: "trace s' = trace s @ evs"
    and c: "\<forall>i. count_list evs (Set_add i) =
              (if i \<in> processedMessageIds s' \<and> i \<notin> processedMessageIds s then 1 else 0)"
    unfolding step_rel_def by blast
  from t have "new_events s s' = evs" by (simp add: new_events_def)
  with c show ?thesis by simp
qed

lemma step_rel_ids: "step_rel s s' \<Longrightarrow> processedMessageIds s \<subseteq> processedMessageIds s'"
  by (simp add: step_rel_def)

subsection \<open>The classifier and the sinks\<close>

text \<open>
  The classifier and the sinks never raise: each returns a value, having added its
  entry and events of its own to the trace and changed nothing else.
\<close>

lemma analyze_shape:
  "\<exists>a evs. analyzeMessageForOrder cfg ev m s =
       (Inr a, s\<lparr>trace := trace s @ Entered Classifier m # evs\<rparr>) \<and>
     list_all inner_event evs"
  by (auto simp: analyzeMessageForOrder_def comp_defs axios_post_openai_def Let_def
      split: prod.splits sum.splits post_outcome.splits)

lemma ledger_shape:
  "\<exists>b evs. logOrderToSheet cfg ev od m s =
       (Inr b, s\<lparr>trace := trace s @ Entered OrderLedger m # evs\<rparr>) \<and>
     list_all inner_event evs"
  by (auto simp: logOrderToSheet_def logOrderToSheet_try_def comp_defs Let_def
      split: prod.splits sum.splits)

lemma alert_shape:
  "\<exists>b evs. sendSlackNotification cfg ev od m s =
       (Inr b, s\<lparr>trace := trace s @ Entered AlertChannel m # evs\<rparr>) \<and>
     list_all inner_event evs"
  by (auto simp: sendSlackNotification_def sendSlackNotification_try_def comp_defs Let_def
      split: prod.splits sum.splits)

lemma inner_no_Set_add: "list_all inner_event evs \<Longrightarrow> count_list evs (Set_add i) = 0"
  by (auto simp: count_list_0_iff list_all_iff)

lemma inner_no_Entered: "list_all inner_event evs \<Longrightarrow> Entered c m \<notin> set evs"
  by (auto simp: list_all_iff)

lemma inner_filter_Entered: "list_all inner_event evs \<Longrightarrow> filter is_Entered evs = []"
  by (induction evs) (auto elim: inner_event.elims)

text \<open>What a row and a payload that were built say about the order data.\<close>

lemma call_join_Inr:
  "call_join v sep = Inr x \<Longrightarrow>
     \<exists>xs strs. v = JArr xs \<and> elem_strings xs = Inr strs \<and> x = join_strs sep strs"
  by (cases v) (auto split: sum.splits)

text \<open>
  The joined text in closed form: the first text, then each further one after the
  separator. The elements of an array of strings are joined as they are.
\<close>

lemma join_strs_closed:
  "join_strs sep strs =
     (case strs of [] \<Rightarrow> [] | x # rest \<Rightarrow> x @ concat (map (\<lambda>y. sep @ y) rest))"
  by (induction sep strs rule: join_strs.induct) auto

lemma elem_strings_strs: "elem_strings (map JStr xs) = Inr xs"
  by (induction xs) auto

lemma call_toUpperCase_Inr:
  "call_toUpperCase up v = Inr x \<Longrightarrow> \<exists>u. v = JStr u \<and> x = up u"
  by (cases v) auto

lemma order_row_Inr:
  assumes "order_row ts od m = Inr row"
  shows "\<exists>name phone ps qs pstrs qstrs total special urgency.
     get_prop od ''customerName'' = Inr name \<and> get_prop od ''customerPhone'' = Inr phone \<and>
     get_prop od ''products'' = Inr (JArr ps) \<and> get_prop od ''quantities'' = Inr (JArr qs) \<and>
     get_prop od ''totalAmount'' = Inr total \<and> get_prop od ''specialRequests'' = Inr special \<and>
     get_prop od ''urgency'' = Inr urgency \<and>
     elem_strings ps = Inr pstrs \<and> elem_strings qs = Inr qstrs \<and>
     row = [JStr ts, name, phone, JStr (join_strs '', '' pstrs),
            JStr (join_strs '', '' qstrs), total, special, urgency,
            JStr (m_body m), JStr (m_id m), JStr ''Pending'']"
  using assms unfolding order_row_def bind_r_def
  by (auto split: sum.splits dest!: call_join_Inr)

lemma slack_payload_Inr:
  assumes "slack_payload ev od m = Inr p"
  shows "\<exists>ps qs u. get_prop od ''products'' = Inr (JArr ps) \<and>
     get_prop od ''quantities'' = Inr (JArr qs) \<and> get_prop od ''urgency'' = Inr (JStr u)"
  using assms unfolding slack_payload_def bind_r_def
  by (auto split: sum.splits dest!: call_join_Inr call_toUpperCase_Inr)

text \<open>The result of a sink is the result of its \<^verbatim>\<open>try\<close> block, an exception read as false.\<close>

lemma ledger_result:
  "fst (logOrderToSheet cfg ev od m s) =
     (case fst (logOrderToSheet_try cfg ev od m (snd (emit (Entered OrderLedger m) s))) of
        Inl e \<Rightarrow> Inr False | Inr b \<Rightarrow> Inr b)"
  by (auto simp: logOrderToSheet_def comp_defs split: prod.splits sum.splits)

lemma alert_result:
  "fst (sendSlackNotification cfg ev od m s) =
     (case fst (sendSlackNotification_try cfg ev od m (snd (emit (Entered AlertChannel m) s))) of
        Inl e \<Rightarrow> Inr False | Inr b \<Rightarrow> Inr b)"
  by (auto simp: sendSlackNotification_def comp_defs split: prod.splits sum.splits)

text \<open>A sink that returns true has sent its request, built from well-formed order data.\<close>

lemma ledger_True:
  assumes "fst (logOrderToSheet cfg ev od m s) = Inr True"
  shows "\<exists>row. order_row (toLocaleString ev TIMEZONE (clock ev (trace s @ [Entered OrderLedger m])))
            od m = Inr row \<and>
     sheets s \<and> \<not> unset (GOOGLE_SHEET_ID cfg) \<and>
     values_append ev (trace s @ [Entered OrderLedger m,
        Clock_read (clock ev (trace s @ [Entered OrderLedger m])),
        Sheets_append (str_of (GOOGLE_SHEET_ID cfg)) [row]]) \<and>
     snd (logOrderToSheet cfg ev od m s) =
       s\<lparr>trace := trace s @ [Entered OrderLedger m,
          Clock_read (clock ev (trace s @ [Entered OrderLedger m])),
          Sheets_append (str_of (GOOGLE_SHEET_ID cfg)) [row], Console Order_logged_to_Sheets]\<rparr>"
  using assms
  by (auto simp: logOrderToSheet_def logOrderToSheet_try_def comp_defs Let_def
      split: prod.splits sum.splits if_splits)

lemma alert_True:
  assumes "fst (sendSlackNotification cfg ev od m s) = Inr True"
  shows "\<exists>p. slack_payload ev od m = Inr p \<and> \<not> unset (SLACK_WEBHOOK_URL cfg)"
  using assms
  by (auto simp: sendSlackNotification_def sendSlackNotification_try_def comp_defs Let_def
      split: prod.splits sum.splits if_splits)



text \<open>
  \<^verbatim>\<open>logOrderToSheet\<close> returns false in three cases: the ledger is not configured, the
  row cannot be built, or the append request is rejected.
\<close>

lemma ledger_fails_iff:
  "fst (logOrderToSheet cfg ev od m s) = Inr False \<longleftrightarrow>
     \<not> sheets s \<or> unset (GOOGLE_SHEET_ID cfg) \<or>
     (case order_row (toLocaleString ev TIMEZONE (clock ev (trace s @ [Entered OrderLedger m])))
             od m of
        Inl e \<Rightarrow> True
      | Inr row \<Rightarrow>
          \<not> values_append ev (trace s @ [Entered OrderLedger m,
               Clock_read (clock ev (trace s @ [Entered OrderLedger m])),
               Sheets_append (str_of (GOOGLE_SHEET_ID cfg)) [row]]))"
  by (auto simp: logOrderToSheet_def logOrderToSheet_try_def comp_defs Let_def
      split: prod.splits sum.splits)

text \<open>What the loop body gets from the classifier.\<close>

lemma analysis_of_total: "\<exists>a. analysis_of cfg ev m s = Inr a"
proof -
  obtain a evs where "analyzeMessageForOrder cfg ev m
      (snd (emit (Console (Processing_message (m_id m) (m_from m))) s)) =
    (Inr a, (snd (emit (Console (Processing_message (m_id m) (m_from m))) s))
       \<lparr>trace := trace (snd (emit (Console (Processing_message (m_id m) (m_from m))) s)) @
          Entered Classifier m # evs\<rparr>)"
    using analyze_shape by blast
  then show ?thesis by (simp add: analysis_of_def)
qed

lemma analysis_of_run:
  assumes "analysis_of cfg ev m s = Inr a"
  shows "\<exists>evs1. list_all inner_event evs1 \<and>
     analyzeMessageForOrder cfg ev m
       (s\<lparr>trace := trace s @ [Console (Processing_message (m_id m) (m_from m))]\<rparr>) =
       (Inr a, s\<lparr>trace := trace s @ Console (Processing_message (m_id m) (m_from m)) #
                    Entered Classifier m # evs1\<rparr>)"
proof -
  let ?s1 = "s\<lparr>trace := trace s @ [Console (Processing_message (m_id m) (m_from m))]\<rparr>"
  obtain a' evs1 where A: "analyzeMessageForOrder cfg ev m ?s1 =
        (Inr a', ?s1\<lparr>trace := trace ?s1 @ Entered Classifier m # evs1\<rparr>)"
    and E1: "list_all inner_event evs1"
    using analyze_shape by blast
  from A assms have "a' = a" by (simp add: analysis_of_def emit_def)
  with A E1 show ?thesis by auto
qed

lemma analysis_of_reply:
  assumes "\<not> unset (OPENAI_API_KEY cfg)"
  shows "analysis_of cfg ev m s =
     Inr (case loop_reply ev m s of
            Post_rejected \<Rightarrow> not_an_order
          | Post_resolved d \<Rightarrow>
              (case parsed_content ev d of Inl e \<Rightarrow> not_an_order | Inr a \<Rightarrow> a))"
  using assms
  by (auto simp: analysis_of_def analyzeMessageForOrder_def loop_reply_def parsed_content_def
      comp_defs axios_post_openai_def bind_r_def Let_def
      split: prod.splits sum.splits post_outcome.splits)

lemma analysis_of_no_key:
  "unset (OPENAI_API_KEY cfg) \<Longrightarrow> analysis_of cfg ev m s = Inr not_an_order"
  by (simp add: analysis_of_def analyzeMessageForOrder_def comp_defs)

lemma analysis_of_value:
  assumes "analysis_of cfg ev m s = Inr a"
  shows "a = not_an_order \<or>
     (\<exists>tr d. openai_post ev tr = Post_resolved d \<and> parsed_content ev d = Inr a)"
proof (cases "unset (OPENAI_API_KEY cfg)")
  case True
  with assms show ?thesis by (simp add: analysis_of_no_key)
next
  case False
  from analysis_of_reply[OF False, of ev m s] assms show ?thesis
    by (auto simp: loop_reply_def split: post_outcome.splits sum.splits)
qed

subsection \<open>The loop body, by cases\<close>

lemma loop_body_seen:
  "m_id m \<in> processedMessageIds s \<Longrightarrow> loop_body cfg ev m s = (Inr (), s)"
  by (simp add: loop_body_def ret_def)

lemma loop_body_not_inbound:
  "m_id m \<notin> processedMessageIds s \<Longrightarrow> m_direction m \<noteq> ''inbound'' \<Longrightarrow>
     loop_body cfg ev m s =
       (Inr (), s\<lparr>processedMessageIds := insert (m_id m) (processedMessageIds s),
                  trace := trace s @ [Set_add (m_id m)]\<rparr>)"
  by (simp add: loop_body_def mark_processed_def)

lemma loop_body_raises:
  assumes "m_id m \<notin> processedMessageIds s" "m_direction m = ''inbound''"
    "analysis_of cfg ev m s = Inr a" "get_prop a ''isOrder'' = Inl e"
  shows "\<exists>evs1. list_all inner_event evs1 \<and>
     loop_body cfg ev m s =
       (Inl e, s\<lparr>trace := trace s @ Console (Processing_message (m_id m) (m_from m)) #
                   Entered Classifier m # evs1\<rparr>)"
proof -
  from analysis_of_run[OF assms(3)] obtain evs1 where E1: "list_all inner_event evs1"
    and A: "analyzeMessageForOrder cfg ev m
       (s\<lparr>trace := trace s @ [Console (Processing_message (m_id m) (m_from m))]\<rparr>) =
       (Inr a, s\<lparr>trace := trace s @ Console (Processing_message (m_id m) (m_from m)) #
                    Entered Classifier m # evs1\<rparr>)"
    by blast
  from A assms(1,2,4) have "loop_body cfg ev m s =
       (Inl e, s\<lparr>trace := trace s @ Console (Processing_message (m_id m) (m_from m)) #
                   Entered Classifier m # evs1\<rparr>)"
    by (simp add: loop_body_def comp_defs)
  with E1 show ?thesis by blast
qed

lemma loop_body_no_order:
  assumes "m_id m \<notin> processedMessageIds s" "m_direction m = ''inbound''"
    "analysis_of cfg ev m s = Inr a" "get_prop a ''isOrder'' = Inr v" "\<not> truthy v"
  shows "\<exists>evs1. list_all inner_event evs1 \<and>
     loop_body cfg ev m s =
       (Inr (), s\<lparr>processedMessageIds := insert (m_id m) (processedMessageIds s),
          trace := trace s @ Console (Processing_message (m_id m) (m_from m)) #
            Entered Classifier m # evs1 @
            [Console (No_order_detected (m_id m)), Set_add (m_id m)]\<rparr>)"
proof -
  from analysis_of_run[OF assms(3)] obtain evs1 where E1: "list_all inner_event evs1"
    and A: "analyzeMessageForOrder cfg ev m
       (s\<lparr>trace := trace s @ [Console (Processing_message (m_id m) (m_from m))]\<rparr>) =
       (Inr a, s\<lparr>trace := trace s @ Console (Processing_message (m_id m) (m_from m)) #
                    Entered Classifier m # evs1\<rparr>)"
    by blast
  from A assms(1,2,4,5) have "loop_body cfg ev m s =
       (Inr (), s\<lparr>processedMessageIds := insert (m_id m) (processedMessageIds s),
          trace := trace s @ Console (Processing_message (m_id m) (m_from m)) #
            Entered Classifier m # evs1 @
            [Console (No_order_detected (m_id m)), Set_add (m_id m)]\<rparr>)"
    by (simp add: loop_body_def comp_defs mark_processed_def)
  with E1 show ?thesis by blast
qed

lemma loop_body_order:
  assumes "m_id m \<notin> processedMessageIds s" "m_direction m = ''inbound''"
    "analysis_of cfg ev m s = Inr a" "is_order a"
  shows "\<exists>b1 b2 evs1 evs2 evs3. list_all inner_event evs1 \<and> list_all inner_event evs2 \<and>
     list_all inner_event evs3 \<and>
     at_ledger cfg ev m s =
       s\<lparr>trace := trace s @ Console (Processing_message (m_id m) (m_from m)) #
                    Entered Classifier m # evs1 @ [Console (Order_detected (m_id m))]\<rparr> \<and>
     logOrderToSheet cfg ev a m (at_ledger cfg ev m s) =
       (Inr b1, (at_ledger cfg ev m s)
          \<lparr>trace := trace (at_ledger cfg ev m s) @ Entered OrderLedger m # evs2\<rparr>) \<and>
     sendSlackNotification cfg ev a m (at_alert cfg ev m a s) =
       (Inr b2, (at_alert cfg ev m a s)
          \<lparr>trace := trace (at_alert cfg ev m a s) @ Entered AlertChannel m # evs3\<rparr>) \<and>
     loop_body cfg ev m s =
       (Inr (), s\<lparr>processedMessageIds := insert (m_id m) (processedMessageIds s),
          trace := trace s @ Console (Processing_message (m_id m) (m_from m)) #
            Entered Classifier m # evs1 @ Console (Order_detected (m_id m)) #
            Entered OrderLedger m # evs2 @ Entered AlertChannel m # evs3 @
            [Console (if b1 \<and> b2 then Order_processed_successfully (m_id m)
                      else Order_processed_with_issues (m_id m)),
             Set_add (m_id m)]\<rparr>)"
proof -
  from assms(4) obtain v where v: "get_prop a ''isOrder'' = Inr v" "truthy v"
    by (auto simp: is_order_def split: sum.splits)
  from analysis_of_run[OF assms(3)] obtain evs1 where E1: "list_all inner_event evs1"
    and A: "analyzeMessageForOrder cfg ev m
       (s\<lparr>trace := trace s @ [Console (Processing_message (m_id m) (m_from m))]\<rparr>) =
       (Inr a, s\<lparr>trace := trace s @ Console (Processing_message (m_id m) (m_from m)) #
                    Entered Classifier m # evs1\<rparr>)"
    by blast
  let ?s3 = "s\<lparr>trace := trace s @ Console (Processing_message (m_id m) (m_from m)) #
                    Entered Classifier m # evs1 @ [Console (Order_detected (m_id m))]\<rparr>"
  have S3: "at_ledger cfg ev m s = ?s3"
    using A by (simp add: at_ledger_def emit_def)
  obtain b1 evs2 where L: "logOrderToSheet cfg ev a m ?s3 =
        (Inr b1, ?s3\<lparr>trace := trace ?s3 @ Entered OrderLedger m # evs2\<rparr>)"
    and E2: "list_all inner_event evs2"
    using ledger_shape by blast
  let ?s4 = "?s3\<lparr>trace := trace ?s3 @ Entered OrderLedger m # evs2\<rparr>"
  have S4: "at_alert cfg ev m a s = ?s4"
    using L S3 by (simp add: at_alert_def)
  obtain b2 evs3 where S: "sendSlackNotification cfg ev a m ?s4 =
        (Inr b2, ?s4\<lparr>trace := trace ?s4 @ Entered AlertChannel m # evs3\<rparr>)"
    and E3: "list_all inner_event evs3"
    using alert_shape by blast
  from v A L S assms(1,2) have LB: "loop_body cfg ev m s =
       (Inr (), s\<lparr>processedMessageIds := insert (m_id m) (processedMessageIds s),
          trace := trace s @ Console (Processing_message (m_id m) (m_from m)) #
            Entered Classifier m # evs1 @ Console (Order_detected (m_id m)) #
            Entered OrderLedger m # evs2 @ Entered AlertChannel m # evs3 @
            [Console (if b1 \<and> b2 then Order_processed_successfully (m_id m)
                      else Order_processed_with_issues (m_id m)),
             Set_add (m_id m)]\<rparr>)"
    by (simp add: loop_body_def comp_defs mark_processed_def)
  have L': "logOrderToSheet cfg ev a m (at_ledger cfg ev m s) =
       (Inr b1, (at_ledger cfg ev m s)
          \<lparr>trace := trace (at_ledger cfg ev m s) @ Entered OrderLedger m # evs2\<rparr>)"
    using L unfolding S3 .
  have S': "sendSlackNotification cfg ev a m (at_alert cfg ev m a s) =
       (Inr b2, (at_alert cfg ev m a s)
          \<lparr>trace := trace (at_alert cfg ev m a s) @ Entered AlertChannel m # evs3\<rparr>)"
    using S unfolding S4 .
  show ?thesis
    apply (rule exI[of _ b1], rule exI[of _ b2], rule exI[of _ evs1], rule exI[of _ evs2],
        rule exI[of _ evs3])
    apply (intro conjI)
          apply (rule E1)
         apply (rule E2)
        apply (rule E3)
       apply (rule S3)
      apply (rule L')
     apply (rule S')
    apply (rule LB)
    done
qed

lemma for_of_next:
  "fst (body x s) = Inr () \<Longrightarrow> for_of body (x # xs) s = for_of body xs (snd (body x s))"
  by (cases "body x s") (simp add: and_then_def)

text \<open>Every step of the service is of the kind \<open>step_rel\<close> describes.\<close>

lemma keeps_loop_body: "keeps (loop_body cfg ev m)"
  unfolding keeps_def
proof
  fix s :: sys
  obtain a where a: "analysis_of cfg ev m s = Inr a"
    using analysis_of_total by blast
  consider (seen) "m_id m \<in> processedMessageIds s"
    | (out) "m_id m \<notin> processedMessageIds s" "m_direction m \<noteq> ''inbound''"
    | (raises) e where "m_id m \<notin> processedMessageIds s" "m_direction m = ''inbound''"
        "get_prop a ''isOrder'' = Inl e"
    | (no_order) v where "m_id m \<notin> processedMessageIds s" "m_direction m = ''inbound''"
        "get_prop a ''isOrder'' = Inr v" "\<not> truthy v"
    | (order) "m_id m \<notin> processedMessageIds s" "m_direction m = ''inbound''" "is_order a"
    by (cases "get_prop a ''isOrder''") (auto simp: is_order_def)
  then show "step_rel s (snd (loop_body cfg ev m s))"
  proof cases
    case seen
    then show ?thesis by (simp add: loop_body_seen step_rel_refl)
  next
    case out
    then show ?thesis by (auto simp: loop_body_not_inbound step_rel_def)
  next
    case raises
    from loop_body_raises[OF raises(1,2) a raises(3)] raises(1,2) show ?thesis
      by (auto simp: step_rel_def inner_no_Set_add inner_no_Entered)
  next
    case no_order
    from loop_body_no_order[OF no_order(1,2) a no_order(3,4)] no_order(1,2) show ?thesis
      by (auto simp: step_rel_def inner_no_Set_add inner_no_Entered)
  next
    case order
    from loop_body_order[OF order(1,2) a order(3)] obtain b1 b2 evs1 evs2 evs3 where
      E: "list_all inner_event evs1" "list_all inner_event evs2" "list_all inner_event evs3"
      and L: "loop_body cfg ev m s =
       (Inr (), s\<lparr>processedMessageIds := insert (m_id m) (processedMessageIds s),
          trace := trace s @ Console (Processing_message (m_id m) (m_from m)) #
            Entered Classifier m # evs1 @ Console (Order_detected (m_id m)) #
            Entered OrderLedger m # evs2 @ Entered AlertChannel m # evs3 @
            [Console (if b1 \<and> b2 then Order_processed_successfully (m_id m)
                      else Order_processed_with_issues (m_id m)),
             Set_add (m_id m)]\<rparr>)"
      by blast
    from L E order(1,2) show ?thesis
      by (auto simp: step_rel_def inner_no_Set_add inner_no_Entered)
  qed
qed

lemma keeps_for_of: "(\<And>x. keeps (body x)) \<Longrightarrow> keeps (for_of body xs)"
  by (induction xs) (auto intro: keeps_intros)

lemma keeps_processMessages: "keeps (processMessages cfg ev)"
  unfolding processMessages_def
  by (intro keeps_intros keeps_fetch keeps_for_of keeps_loop_body) simp_all

lemma step_rel_perform: "step_rel s (perform cfg ev op s)"
  using keeps_processMessages keeps_setup by (cases op) (simp_all add: keeps_def)

lemma step_rel_perform_all: "step_rel s (perform_all cfg ev ops s)"
proof (induction ops arbitrary: s)
  case Nil
  show ?case by (simp add: step_rel_refl)
next
  case (Cons op ops)
  show ?case
    using step_rel_trans[OF step_rel_perform Cons.IH] by simp
qed

subsection \<open>A run whose classifier never answers null\<close>

lemma loop_body_returns:
  assumes "never_null ev"
  shows "fst (loop_body cfg ev m s) = Inr () \<and>
     m_id m \<in> processedMessageIds (snd (loop_body cfg ev m s))"
proof -
  obtain a where a: "analysis_of cfg ev m s = Inr a"
    using analysis_of_total by blast
  have "a \<noteq> JNull \<and> a \<noteq> JUndefined"
    using analysis_of_value[OF a] assms by (auto simp: never_null_def not_an_order_def)
  then obtain v where v: "get_prop a ''isOrder'' = Inr v"
    by (cases a) auto
  consider (seen) "m_id m \<in> processedMessageIds s"
    | (out) "m_id m \<notin> processedMessageIds s" "m_direction m \<noteq> ''inbound''"
    | (no_order) "m_id m \<notin> processedMessageIds s" "m_direction m = ''inbound''" "\<not> truthy v"
    | (order) "m_id m \<notin> processedMessageIds s" "m_direction m = ''inbound''" "is_order a"
    using v by (auto simp: is_order_def)
  then show ?thesis
  proof cases
    case seen
    then show ?thesis by (simp add: loop_body_seen)
  next
    case out
    then show ?thesis by (simp add: loop_body_not_inbound)
  next
    case no_order
    from loop_body_no_order[OF no_order(1,2) a v no_order(3)] show ?thesis by auto
  next
    case order
    from loop_body_order[OF order(1,2) a order(3)] show ?thesis by auto
  qed
qed

lemma for_of_marks:
  assumes "never_null ev"
  shows "fst (for_of (loop_body cfg ev) ms s) = Inr () \<and>
     m_id ` set ms \<subseteq> processedMessageIds (snd (for_of (loop_body cfg ev) ms s))"
proof (induction ms arbitrary: s)
  case Nil
  show ?case by (simp add: ret_def)
next
  case (Cons m ms)
  let ?s1 = "snd (loop_body cfg ev m s)"
  from loop_body_returns[OF assms, of cfg m s] have
    r: "fst (loop_body cfg ev m s) = Inr ()" and i: "m_id m \<in> processedMessageIds ?s1"
    by simp_all
  have n: "for_of (loop_body cfg ev) (m # ms) s = for_of (loop_body cfg ev) ms ?s1"
    using r by (rule for_of_next)
  have "step_rel ?s1 (snd (for_of (loop_body cfg ev) ms ?s1))"
    using keeps_for_of[of "loop_body cfg ev" ms] keeps_loop_body by (simp add: keeps_def)
  then have "m_id m \<in> processedMessageIds (snd (for_of (loop_body cfg ev) ms ?s1))"
    using i step_rel_ids by blast
  with Cons.IH[of ?s1] n show ?case by simp
qed

text \<open>The dedup set at the end of a run is the one the loop leaves.\<close>

lemma fetch_ids:
  "processedMessageIds (snd (fetchOpenPhoneMessages cfg ev s)) = processedMessageIds s"
  by (auto simp: fetchOpenPhoneMessages_def axios_get_messages_def comp_defs Let_def
      split: prod.splits sum.splits get_outcome.splits)

lemma at_fetch_ids: "processedMessageIds (at_fetch ev s) = processedMessageIds s"
  by (simp add: at_fetch_def comp_defs Let_def)

lemma run_after_loop:
  assumes "batch_of cfg ev s = Inr batch"
  shows "\<exists>s3. processedMessageIds s3 = processedMessageIds s \<and>
     processedMessageIds (snd (processMessages cfg ev s)) =
       processedMessageIds (snd (for_of (loop_body cfg ev) batch s3))"
proof -
  obtain s2 where f: "fetchOpenPhoneMessages cfg ev (at_fetch ev s) = (Inr batch, s2)"
    using assms by (cases "fetchOpenPhoneMessages cfg ev (at_fetch ev s)") (simp add: batch_of_def)
  let ?s3 = "s2\<lparr>trace := trace s2 @ [Console (Found_new_messages (length batch))]\<rparr>"
  have "processedMessageIds s2 = processedMessageIds s"
    using fetch_ids[of cfg ev "at_fetch ev s"] f by (simp add: at_fetch_ids)
  then have p: "processedMessageIds ?s3 = processedMessageIds s" by simp
  have "processedMessageIds (snd (processMessages cfg ev s)) =
       processedMessageIds (snd (for_of (loop_body cfg ev) batch ?s3))"
    using f
    by (auto simp: processMessages_def at_fetch_def comp_defs set_lastProcessedTime_def Let_def
        split: prod.splits sum.splits)
  with p show ?thesis by blast
qed

subsection \<open>Evaluating the sample world\<close>

lemmas run_defs = processMessages_def fetchOpenPhoneMessages_def axios_get_messages_def
  loop_body_def analyzeMessageForOrder_def axios_post_openai_def response_content_def
  js_JSON_parse_def logOrderToSheet_def logOrderToSheet_try_def order_row_def
  sendSlackNotification_def sendSlackNotification_try_def slack_payload_def received_at_def
  mark_processed_def set_lastProcessedTime_def setupGoogleSheetHeaders_def bind_r_def str_of_def
  not_an_order_def emoji_for_def urgencyEmoji_def Object_prototype_keys_def TIMEZONE_def
  new_events_def

lemmas sample_defs = sample_cfg_def sample_env_def sample_sys_def msg_order_def msg_reply_def
  msg_hours_def order_text_def order_json_def bare_order_text_def bare_order_json_def
  no_order_text_def prose_text_def sample_JSON_parse_def sample_toUpperCase_def completion_def

lemmas eval_defs = comp_defs run_defs sample_defs Let_def at_fetch_def analysis_of_def
  loop_reply_def parsed_content_def is_order_def

lemma sample_never_null:
  "never_null (sample_env listing [(m_body msg_order, JStr order_text)] ledger_up webhook_up)"
  unfolding never_null_def
proof (intro allI impI)
  fix tr d a
  assume r: "openai_post (sample_env listing [(m_body msg_order, JStr order_text)]
      ledger_up webhook_up) tr = Post_resolved d"
    and p: "parsed_content (sample_env listing [(m_body msg_order, JStr order_text)]
      ledger_up webhook_up) d = Inr a"
  from r have "d = completion (JStr order_text) \<or> d = completion (JStr prose_text)"
    by (auto simp: sample_env_def split: event.splits if_splits)
  then show "a \<noteq> JNull \<and> a \<noteq> JUndefined"
    using p
    by (auto simp: parsed_content_def response_content_def js_JSON_parse_def bind_r_def
        completion_def sample_env_def sample_JSON_parse_def order_text_def order_json_def
        bare_order_text_def no_order_text_def prose_text_def not_an_order_def
        split: if_splits)
qed

section \<open>Properties of the service\<close>

subsection \<open>A failing fetch\<close>

text \<open>
  Claim C1 says that a run whose fetch call fails leaves both the watermark
  \<^verbatim>\<open>lastProcessedTime\<close> and \<^verbatim>\<open>processedMessageIds\<close> as they were. The watermark part does
  not hold: \<^verbatim>\<open>fetchOpenPhoneMessages\<close> catches the failure and returns the empty list,
  and \<^verbatim>\<open>processMessages\<close> then completes as on any empty batch. In the sample world
  the provider rejects the request, the watermark is 900 before the run and 1005 after.
\<close>

theorem fetch_failure_advances_watermark:
  "fetch_fails sample_cfg (sample_env Get_rejected [] True True) (sample_sys {''m1''}) \<and>
   lastProcessedTime (sample_sys {''m1''}) = 900 \<and>
   lastProcessedTime (snd (processMessages sample_cfg (sample_env Get_rejected [] True True)
      (sample_sys {''m1''}))) = 1005"
  by (simp add: eval_defs fetch_fails_def)

text \<open>
  Claim C1, as the code has it: a run whose fetch call fails returns normally and
  leaves \<^verbatim>\<open>processedMessageIds\<close> unchanged; it logs the failure, counts zero messages
  and sets \<^verbatim>\<open>lastProcessedTime\<close> to the clock reading taken after the (empty) loop.
\<close>

theorem fetch_failure_is_empty_batch:
  assumes "fetch_fails cfg ev s"
  shows "fst (processMessages cfg ev s) = Inr JUndefined \<and>
     processedMessageIds (snd (processMessages cfg ev s)) = processedMessageIds s \<and>
     lastProcessedTime (snd (processMessages cfg ev s)) =
       clock ev (trace s @
         [Clock_read (clock ev (trace s)), Console (Starting_processing (clock ev (trace s))),
          OpenPhone_get 50 (lastProcessedTime s), Console Error_fetching_messages,
          Console (Found_new_messages 0)])"
  using assms
  by (auto simp: fetch_fails_def at_fetch_def processMessages_def fetchOpenPhoneMessages_def
      axios_get_messages_def comp_defs set_lastProcessedTime_def Let_def
      split: prod.splits sum.splits get_outcome.splits)

text \<open>
  The sample run with the provider rejecting the request, in full.
\<close>

theorem fetch_failure_is_empty_batch_witness:
  "fetch_fails sample_cfg (sample_env Get_rejected [] True True) (sample_sys {''m1''}) \<and>
   processMessages sample_cfg (sample_env Get_rejected [] True True) (sample_sys {''m1''}) =
     (Inr JUndefined,
      \<lparr>processedMessageIds = {''m1''}, sheets = True, lastProcessedTime = 1005,
       trace = [Clock_read 1000, Console (Starting_processing 1000), OpenPhone_get 50 900,
                Console Error_fetching_messages, Console (Found_new_messages 0),
                Clock_read 1005, Clock_read 1006, Console (Processing_completed 1006)]\<rparr>)"
  using fetch_failure_is_empty_batch[of sample_cfg "sample_env Get_rejected [] True True"
      "sample_sys {''m1''}"]
  by (simp add: eval_defs fetch_fails_def)

subsection \<open>Every message of a batch is marked\<close>

text \<open>
  Claim C2 says that every id of the batch is in \<^verbatim>\<open>processedMessageIds\<close> at the end of
  the run, added once, whether classification and delivery succeeded or failed. The
  code breaks this on a classifier content that parses to null:
  \<^verbatim>\<open>analyzeMessageForOrder\<close> returns the null, reading \<^verbatim>\<open>analysis.isOrder\<close> raises a
  \<^verbatim>\<open>TypeError\<close> outside every \<^verbatim>\<open>try\<close> but the outermost, and the run is left at that
  message. In the sample run the batch is the inbound \<open>m3\<close>, which the classifier
  answers with the text \<open>null\<close>, and the outbound \<open>m2\<close>: after the run neither id is in
  the set, \<^verbatim>\<open>add\<close> was never called and the watermark is the old one.
\<close>

theorem null_judgment_aborts_run:
  "batch_of sample_cfg
      (sample_env (Get_resolved (Some [msg_hours, msg_reply]))
         [(m_body msg_hours, JStr ''null'')] True True) (sample_sys {}) =
     Inr [msg_hours, msg_reply] \<and>
   processMessages sample_cfg
      (sample_env (Get_resolved (Some [msg_hours, msg_reply]))
         [(m_body msg_hours, JStr ''null'')] True True) (sample_sys {}) =
     (Inr JUndefined,
      \<lparr>processedMessageIds = {}, sheets = True, lastProcessedTime = 900,
       trace = [Clock_read 1000, Console (Starting_processing 1000), OpenPhone_get 50 900,
                Console (Found_new_messages 2),
                Console (Processing_message ''m3'' ''+15550123''),
                Entered Classifier msg_hours, OpenAI_post msg_hours,
                Console (Error_in_processing TypeError)]\<rparr>) \<and>
   m_id msg_hours \<notin> processedMessageIds (snd (processMessages sample_cfg
      (sample_env (Get_resolved (Some [msg_hours, msg_reply]))
         [(m_body msg_hours, JStr ''null'')] True True) (sample_sys {}))) \<and>
   m_id msg_reply \<notin> processedMessageIds (snd (processMessages sample_cfg
      (sample_env (Get_resolved (Some [msg_hours, msg_reply]))
         [(m_body msg_hours, JStr ''null'')] True True) (sample_sys {})))"
  by (simp add: eval_defs batch_of_def)

text \<open>
  What the loop does otherwise. In a world whose classifier never answers with JSON
  null, every id of the batch is in \<^verbatim>\<open>processedMessageIds\<close> at the end of the run,
  whatever the classifier and the sinks did; \<^verbatim>\<open>add\<close> was called exactly once for an id
  that was not in the set before the run and, since the loop skips a message that is
  listed again, not at all for one that was.
\<close>

lemma batch_ids_marked:
  assumes "batch_of cfg ev s = Inr batch" "never_null ev"
  shows "\<forall>m\<in>set batch.
     m_id m \<in> processedMessageIds (snd (processMessages cfg ev s)) \<and>
     count_list (new_events s (snd (processMessages cfg ev s))) (Set_add (m_id m)) =
       (if m_id m \<in> processedMessageIds s then 0 else 1)"
proof
  fix m
  assume m: "m \<in> set batch"
  from run_after_loop[OF assms(1)] obtain s3 where
    e: "processedMessageIds (snd (processMessages cfg ev s)) =
       processedMessageIds (snd (for_of (loop_body cfg ev) batch s3))"
    by blast
  from for_of_marks[OF assms(2), of cfg batch s3] m e have
    i: "m_id m \<in> processedMessageIds (snd (processMessages cfg ev s))"
    by auto
  have "step_rel s (snd (processMessages cfg ev s))"
    using keeps_processMessages by (simp add: keeps_def)
  from step_rel_count[OF this, of "m_id m"] i
  show "m_id m \<in> processedMessageIds (snd (processMessages cfg ev s)) \<and>
     count_list (new_events s (snd (processMessages cfg ev s))) (Set_add (m_id m)) =
       (if m_id m \<in> processedMessageIds s then 0 else 1)"
    by simp
qed

text \<open>
  A batch that lists the order \<open>m1\<close> twice, the outbound \<open>m2\<close> and the already
  processed \<open>m3\<close>, with the webhook down: all three ids are in the set, and the calls
  of \<^verbatim>\<open>add\<close> are one for \<open>m1\<close> and one for \<open>m2\<close>. And a batch that is the one message
  \<open>m1\<close>, already in the set: no call of \<^verbatim>\<open>add\<close>.
\<close>

lemma batch_ids_marked_sample:
  "batch_of sample_cfg
      (sample_env (Get_resolved (Some [msg_order, msg_reply, msg_order, msg_hours]))
         [(m_body msg_order, JStr order_text)] True False)
      (sample_sys {''m3''}) = Inr [msg_order, msg_reply, msg_order, msg_hours] \<and>
   never_null (sample_env (Get_resolved (Some [msg_order, msg_reply, msg_order, msg_hours]))
         [(m_body msg_order, JStr order_text)] True False) \<and>
   processedMessageIds (snd (processMessages sample_cfg
      (sample_env (Get_resolved (Some [msg_order, msg_reply, msg_order, msg_hours]))
         [(m_body msg_order, JStr order_text)] True False)
      (sample_sys {''m3''}))) = {''m1'', ''m2'', ''m3''} \<and>
   filter is_Set_add (new_events (sample_sys {''m3''}) (snd (processMessages sample_cfg
      (sample_env (Get_resolved (Some [msg_order, msg_reply, msg_order, msg_hours]))
         [(m_body msg_order, JStr order_text)] True False)
      (sample_sys {''m3''})))) = [Set_add ''m1'', Set_add ''m2'']"
  using batch_ids_marked[of sample_cfg
      "sample_env (Get_resolved (Some [msg_order, msg_reply, msg_order, msg_hours]))
         [(m_body msg_order, JStr order_text)] True False"
      "sample_sys {''m3''}" "[msg_order, msg_reply, msg_order, msg_hours]"]
    sample_never_null[of "Get_resolved (Some [msg_order, msg_reply, msg_order, msg_hours])"
      True False]
  by (simp add: eval_defs batch_of_def insert_commute)

lemma relisted_message_not_added:
  "batch_of sample_cfg (sample_env (Get_resolved (Some [msg_order])) [] True True)
      (sample_sys {''m1''}) = Inr [msg_order] \<and>
   m_id msg_order \<in> processedMessageIds (sample_sys {''m1''}) \<and>
   count_list
     (new_events (sample_sys {''m1''})
        (snd (processMessages sample_cfg
           (sample_env (Get_resolved (Some [msg_order])) [] True True) (sample_sys {''m1''}))))
     (Set_add (m_id msg_order)) = 0"
  by (simp add: eval_defs batch_of_def)

subsection \<open>What a run returns\<close>

text \<open>
  Claim C3 says that a run returns a summary with the counts of messages processed,
  orders detected and sink failures, and that a failed ledger append shows in it.
  \<^verbatim>\<open>processMessages\<close> returns nothing: in the sample run an order is detected, the
  ledger rejects the append, and the value returned is no summary.
\<close>

theorem run_returns_no_summary:
  "\<not> (\<exists>v. fst (processMessages sample_cfg
        (sample_env (Get_resolved (Some [msg_order])) [(m_body msg_order, JStr order_text)]
           False True) (sample_sys {})) = Inr v \<and> is_summary v) \<and>
   Console (Order_detected ''m1'') \<in> set (trace (snd (processMessages sample_cfg
        (sample_env (Get_resolved (Some [msg_order])) [(m_body msg_order, JStr order_text)]
           False True) (sample_sys {})))) \<and>
   Console (Error_logging_to_Sheets RequestFailed) \<in> set (trace (snd (processMessages sample_cfg
        (sample_env (Get_resolved (Some [msg_order])) [(m_body msg_order, JStr order_text)]
           False True) (sample_sys {}))))"
  by (simp add: eval_defs)

text \<open>
  Claim C3, as the code has it: every run returns \<^verbatim>\<open>undefined\<close> and never raises.
  When an order is detected and the ledger append for it fails, that is
  \<^verbatim>\<open>logOrderToSheet\<close> returns false, for whatever reason (the ledger is not configured,
  the row cannot be built, or the request is rejected), the loop body still returns
  normally and the failure is reported on the console, by the line
  \<open>Order processed with some issues\<close> for the message.
\<close>

theorem failed_ledger_only_logged:
  assumes "m_id m \<notin> processedMessageIds s" "m_direction m = ''inbound''"
    "analysis_of cfg ev m s = Inr a" "is_order a"
    "sheetSuccess_of cfg ev m a s = Inr False"
  shows "fst (processMessages cfg ev s0) = Inr JUndefined \<and>
     \<not> is_summary JUndefined \<and>
     fst (loop_body cfg ev m s) = Inr () \<and>
     Console (Order_processed_with_issues (m_id m))
       \<in> set (new_events s (snd (loop_body cfg ev m s)))"
proof -
  have R: "fst (processMessages cfg ev s0) = Inr JUndefined"
    by (auto simp: processMessages_def comp_defs Let_def split: prod.splits sum.splits)
  from loop_body_order[OF assms(1-4)] obtain b1 b2 evs1 evs2 evs3 where
    B: "logOrderToSheet cfg ev a m (at_ledger cfg ev m s) =
       (Inr b1, (at_ledger cfg ev m s)
          \<lparr>trace := trace (at_ledger cfg ev m s) @ Entered OrderLedger m # evs2\<rparr>)"
    and L: "loop_body cfg ev m s =
       (Inr (), s\<lparr>processedMessageIds := insert (m_id m) (processedMessageIds s),
          trace := trace s @ Console (Processing_message (m_id m) (m_from m)) #
            Entered Classifier m # evs1 @ Console (Order_detected (m_id m)) #
            Entered OrderLedger m # evs2 @ Entered AlertChannel m # evs3 @
            [Console (if b1 \<and> b2 then Order_processed_successfully (m_id m)
                      else Order_processed_with_issues (m_id m)),
             Set_add (m_id m)]\<rparr>)"
    by blast
  from B assms(5) have nb: "\<not> b1" by (simp add: sheetSuccess_of_def)
  from L nb have T: "new_events s (snd (loop_body cfg ev m s)) =
      Console (Processing_message (m_id m) (m_from m)) #
            Entered Classifier m # evs1 @ Console (Order_detected (m_id m)) #
            Entered OrderLedger m # evs2 @ Entered AlertChannel m # evs3 @
            [Console (Order_processed_with_issues (m_id m)), Set_add (m_id m)]"
    by (simp add: new_events_def)
  have P: "Console (Order_processed_with_issues (m_id m))
       \<in> set (new_events s (snd (loop_body cfg ev m s)))"
    unfolding T by simp
  from L have F: "fst (loop_body cfg ev m s) = Inr ()" by simp
  from R F P show ?thesis by simp
qed

text \<open>
  The sample order with a ledger that rejects its first append and accepts every
  later one, then with no sheet id configured; and the bare judgment
  \<^verbatim>\<open>{"isOrder":true}\<close>, from which no row can be built, with the ledger up.
\<close>

theorem failed_ledger_only_logged_witness:
  "m_id msg_order \<notin> processedMessageIds (sample_sys {}) \<and>
   m_direction msg_order = ''inbound'' \<and>
   is_order order_json \<and> is_order bare_order_json \<and>
   analysis_of sample_cfg
     ((sample_env (Get_resolved (Some [msg_order])) [(m_body msg_order, JStr order_text)]
         True True)\<lparr>values_append := \<lambda>tr. 1 < length (filter is_Sheets_append tr)\<rparr>)
     msg_order (sample_sys {}) = Inr order_json \<and>
   sheetSuccess_of sample_cfg
     ((sample_env (Get_resolved (Some [msg_order])) [(m_body msg_order, JStr order_text)]
         True True)\<lparr>values_append := \<lambda>tr. 1 < length (filter is_Sheets_append tr)\<rparr>)
     msg_order order_json (sample_sys {}) = Inr False \<and>
   fst (processMessages sample_cfg
     ((sample_env (Get_resolved (Some [msg_order])) [(m_body msg_order, JStr order_text)]
         True True)\<lparr>values_append := \<lambda>tr. 1 < length (filter is_Sheets_append tr)\<rparr>)
     (sample_sys {})) = Inr JUndefined \<and>
   Console (Order_processed_with_issues ''m1'') \<in> set (new_events (sample_sys {})
     (snd (loop_body sample_cfg
       ((sample_env (Get_resolved (Some [msg_order])) [(m_body msg_order, JStr order_text)]
           True True)\<lparr>values_append := \<lambda>tr. 1 < length (filter is_Sheets_append tr)\<rparr>)
       msg_order (sample_sys {})))) \<and>
   analysis_of (sample_cfg\<lparr>GOOGLE_SHEET_ID := None\<rparr>)
     (sample_env (Get_resolved (Some [msg_order])) [(m_body msg_order, JStr order_text)]
        True True) msg_order (sample_sys {}) = Inr order_json \<and>
   sheetSuccess_of (sample_cfg\<lparr>GOOGLE_SHEET_ID := None\<rparr>)
     (sample_env (Get_resolved (Some [msg_order])) [(m_body msg_order, JStr order_text)]
        True True) msg_order order_json (sample_sys {}) = Inr False \<and>
   Console (Order_processed_with_issues ''m1'') \<in> set (new_events (sample_sys {})
     (snd (loop_body (sample_cfg\<lparr>GOOGLE_SHEET_ID := None\<rparr>)
       (sample_env (Get_resolved (Some [msg_order])) [(m_body msg_order, JStr order_text)]
          True True) msg_order (sample_sys {})))) \<and>
   analysis_of sample_cfg
     (sample_env (Get_resolved (Some [msg_order])) [(m_body msg_order, JStr bare_order_text)]
        True True) msg_order (sample_sys {}) = Inr bare_order_json \<and>
   sheetSuccess_of sample_cfg
     (sample_env (Get_resolved (Some [msg_order])) [(m_body msg_order, JStr bare_order_text)]
        True True) msg_order bare_order_json (sample_sys {}) = Inr False \<and>
   Console (Order_processed_with_issues ''m1'') \<in> set (new_events (sample_sys {})
     (snd (loop_body sample_cfg
       (sample_env (Get_resolved (Some [msg_order])) [(m_body msg_order, JStr bare_order_text)]
          True True) msg_order (sample_sys {}))))"
  using failed_ledger_only_logged[of msg_order "sample_sys {}" sample_cfg
      "(sample_env (Get_resolved (Some [msg_order])) [(m_body msg_order, JStr order_text)]
         True True)\<lparr>values_append := \<lambda>tr. 1 < length (filter is_Sheets_append tr)\<rparr>"
      order_json "sample_sys {}"]
    failed_ledger_only_logged[of msg_order "sample_sys {}" "sample_cfg\<lparr>GOOGLE_SHEET_ID := None\<rparr>"
      "sample_env (Get_resolved (Some [msg_order])) [(m_body msg_order, JStr order_text)]
        True True" order_json "sample_sys {}"]
    failed_ledger_only_logged[of msg_order "sample_sys {}" sample_cfg
      "sample_env (Get_resolved (Some [msg_order])) [(m_body msg_order, JStr bare_order_text)]
        True True" bare_order_json "sample_sys {}"]
  by (simp add: eval_defs at_ledger_def sheetSuccess_of_def)

subsection \<open>Classifier failures\<close>

text \<open>
  Claim C4 says that a reply whose content is not of the contracted shape, valid
  JSON of another shape included, makes the classifier return \<^verbatim>\<open>{isOrder:false}\<close>.
  \<^verbatim>\<open>analyzeMessageForOrder\<close> returns whatever \<^verbatim>\<open>JSON.parse\<close> gives: for the content
  \<^verbatim>\<open>{"isOrder":true}\<close>, which has none of the order fields, it returns that object.
\<close>

theorem wrong_shape_returned_as_parsed:
  "loop_reply
     (sample_env (Get_resolved (Some [msg_order])) [(m_body msg_order, JStr bare_order_text)]
        True True) msg_order (sample_sys {}) = Post_resolved (completion (JStr bare_order_text)) \<and>
   parsed_content
     (sample_env (Get_resolved (Some [msg_order])) [(m_body msg_order, JStr bare_order_text)]
        True True) (completion (JStr bare_order_text)) = Inr (JObj [(''isOrder'', JBool True)]) \<and>
   analysis_of sample_cfg
     (sample_env (Get_resolved (Some [msg_order])) [(m_body msg_order, JStr bare_order_text)]
        True True) msg_order (sample_sys {}) = Inr (JObj [(''isOrder'', JBool True)]) \<and>
   JObj [(''isOrder'', JBool True)] \<noteq> not_an_order"
  by (simp add: eval_defs)

text \<open>
  Claim C4, as the code has it by design, for an inbound message that is not yet
  processed and with the key set. When the classifier fails (the request is
  rejected, the reply has no content to read, or the content is not JSON), the
  loop body gets \<^verbatim>\<open>{isOrder:false}\<close>, returns normally, marks the message and enters no
  sink. A content that is JSON is returned as parsed, whatever its shape; when the
  parsed value is not null the loop body returns normally and marks the message.
\<close>

theorem classifier_failure_is_no_order:
  assumes "m_id m \<notin> processedMessageIds s" "m_direction m = ''inbound''"
    "\<not> unset (OPENAI_API_KEY cfg)"
  shows "(classifier_fails ev m s \<longrightarrow>
       analysis_of cfg ev m s = Inr not_an_order \<and>
       fst (loop_body cfg ev m s) = Inr () \<and>
       m_id m \<in> processedMessageIds (snd (loop_body cfg ev m s)) \<and>
       filter is_Entered (new_events s (snd (loop_body cfg ev m s))) = [Entered Classifier m]) \<and>
     (\<forall>d a. loop_reply ev m s = Post_resolved d \<and> parsed_content ev d = Inr a \<longrightarrow>
       analysis_of cfg ev m s = Inr a \<and>
       (a \<noteq> JNull \<and> a \<noteq> JUndefined \<longrightarrow>
          fst (loop_body cfg ev m s) = Inr () \<and>
          m_id m \<in> processedMessageIds (snd (loop_body cfg ev m s))))"
proof (intro conjI impI allI)
  assume f: "classifier_fails ev m s"
  then show A: "analysis_of cfg ev m s = Inr not_an_order"
    using analysis_of_reply[OF assms(3), of ev m s]
    by (auto simp: classifier_fails_def split: post_outcome.splits sum.splits)
  have "get_prop not_an_order ''isOrder'' = Inr (JBool False)"
    by (simp add: not_an_order_def)
  from loop_body_no_order[OF assms(1,2) A this] obtain evs1 where
    E: "list_all inner_event evs1" and
    L: "loop_body cfg ev m s =
       (Inr (), s\<lparr>processedMessageIds := insert (m_id m) (processedMessageIds s),
          trace := trace s @ Console (Processing_message (m_id m) (m_from m)) #
            Entered Classifier m # evs1 @
            [Console (No_order_detected (m_id m)), Set_add (m_id m)]\<rparr>)"
    by auto
  from L show "fst (loop_body cfg ev m s) = Inr ()" by simp
  from L show "m_id m \<in> processedMessageIds (snd (loop_body cfg ev m s))" by simp
  from L E show "filter is_Entered (new_events s (snd (loop_body cfg ev m s))) =
      [Entered Classifier m]"
    by (simp add: new_events_def inner_filter_Entered)
next
  fix d a
  assume r: "loop_reply ev m s = Post_resolved d \<and> parsed_content ev d = Inr a"
  then show A: "analysis_of cfg ev m s = Inr a"
    using analysis_of_reply[OF assms(3), of ev m s] by simp
  assume n: "a \<noteq> JNull \<and> a \<noteq> JUndefined"
  then obtain v where v: "get_prop a ''isOrder'' = Inr v"
    by (cases a) auto
  have "fst (loop_body cfg ev m s) = Inr () \<and>
      m_id m \<in> processedMessageIds (snd (loop_body cfg ev m s))"
  proof (cases "truthy v")
    case True
    then have "is_order a" using v by (simp add: is_order_def)
    from loop_body_order[OF assms(1,2) A this] show ?thesis by auto
  next
    case False
    from loop_body_no_order[OF assms(1,2) A v False] show ?thesis by auto
  qed
  then show "fst (loop_body cfg ev m s) = Inr ()"
    "m_id m \<in> processedMessageIds (snd (loop_body cfg ev m s))" by simp_all
qed

text \<open>
  The question about opening hours, answered in prose.
\<close>

theorem classifier_failure_is_no_order_witness:
  "m_id msg_hours \<notin> processedMessageIds (sample_sys {}) \<and>
   m_direction msg_hours = ''inbound'' \<and>
   \<not> unset (OPENAI_API_KEY sample_cfg) \<and>
   classifier_fails (sample_env (Get_resolved (Some [msg_hours])) [] True True) msg_hours
     (sample_sys {}) \<and>
   analysis_of sample_cfg (sample_env (Get_resolved (Some [msg_hours])) [] True True) msg_hours
     (sample_sys {}) = Inr not_an_order \<and>
   loop_body sample_cfg (sample_env (Get_resolved (Some [msg_hours])) [] True True) msg_hours
     (sample_sys {}) =
     (Inr (),
      \<lparr>processedMessageIds = {''m3''}, sheets = True, lastProcessedTime = 900,
       trace =
         [Console (Processing_message ''m3'' ''+15550123''),
          Entered Classifier msg_hours, OpenAI_post msg_hours,
          Console (Error_analyzing_message SyntaxError),
          Console (No_order_detected ''m3''), Set_add ''m3'']\<rparr>)"
  using classifier_failure_is_no_order[of msg_hours "sample_sys {}" sample_cfg
      "sample_env (Get_resolved (Some [msg_hours])) [] True True"]
  by (simp add: eval_defs classifier_fails_def)

subsection \<open>Fan-out to the two sinks\<close>



subsection \<open>Messages already processed\<close>

text \<open>
  Claim C6. When the loop reaches a message whose id is in \<^verbatim>\<open>processedMessageIds\<close>, the
  iteration does nothing at all: no event and no change of state. And whatever the
  service does from a state whose dedup set holds the id, however often the provider
  lists the message again, it never enters the classifier or a sink with that
  message and never adds the id again.
\<close>

theorem seen_message_skipped:
  assumes "m_id m \<in> processedMessageIds s"
  shows "loop_body cfg ev m s = (Inr (), s) \<and>
     (\<forall>c. Entered c m \<notin> set (new_events s (perform_all cfg ev ops s))) \<and>
     Set_add (m_id m) \<notin> set (new_events s (perform_all cfg ev ops s))"
  using assms loop_body_seen[of m s cfg ev]
    step_rel_Entered[OF step_rel_perform_all, of _ m s cfg ev ops]
    step_rel_Set_add[OF step_rel_perform_all, of "m_id m" s cfg ev ops]
  by blast

text \<open>
  A run whose listing holds only the message \<open>m1\<close>, already in the set.
\<close>

theorem seen_message_skipped_witness:
  "m_id msg_order \<in> processedMessageIds (sample_sys {''m1''}) \<and>
   loop_body sample_cfg (sample_env (Get_resolved (Some [msg_order])) [] True True) msg_order
      (sample_sys {''m1''}) = (Inr (), sample_sys {''m1''}) \<and>
   new_events (sample_sys {''m1''})
     (perform_all sample_cfg (sample_env (Get_resolved (Some [msg_order])) [] True True) [Run]
        (sample_sys {''m1''})) =
     [Clock_read 1000, Console (Starting_processing 1000), OpenPhone_get 50 900,
      Console (Found_new_messages 1), Clock_read 1004, Clock_read 1005,
      Console (Processing_completed 1005)]"
  using seen_message_skipped[of msg_order "sample_sys {''m1''}" sample_cfg
      "sample_env (Get_resolved (Some [msg_order])) [] True True" "[Run]"]
  by (simp add: comp_defs run_defs sample_defs Let_def)

subsection \<open>Messages that are not inbound\<close>



subsection \<open>The ledger row\<close>

text \<open>
  Claim C8. When \<^verbatim>\<open>logOrderToSheet\<close> returns true, the call has sent exactly one append
  request, with exactly one row of eleven columns: the clock reading formatted in
  \<^verbatim>\<open>CONFIG.TIMEZONE\<close>, the customer name, the customer phone, the products joined, the
  quantities joined, the total amount, the special requests, the urgency, the body
  and the id of the message, and \<open>Pending\<close>. Joined means: the text of the first
  element, then \<^verbatim>\<open>', '\<close> and the text of the next, and so on, nothing for no element;
  the text of a string is the string itself.
\<close>

theorem ledger_row_layout:
  assumes "logOrderToSheet cfg ev orderData m s = (Inr True, s')"
  shows "\<exists>name phone ps qs pstrs qstrs total special urgency.
     get_prop orderData ''customerName'' = Inr name \<and>
     get_prop orderData ''customerPhone'' = Inr phone \<and>
     get_prop orderData ''products'' = Inr (JArr ps) \<and>
     get_prop orderData ''quantities'' = Inr (JArr qs) \<and>
     get_prop orderData ''totalAmount'' = Inr total \<and>
     get_prop orderData ''specialRequests'' = Inr special \<and>
     get_prop orderData ''urgency'' = Inr urgency \<and>
     elem_strings ps = Inr pstrs \<and> elem_strings qs = Inr qstrs \<and>
     (\<forall>xs. ps = map JStr xs \<longrightarrow> pstrs = xs) \<and>
     (\<forall>xs. qs = map JStr xs \<longrightarrow> qstrs = xs) \<and>
     filter is_Sheets_append (new_events s s') =
       [Sheets_append (str_of (GOOGLE_SHEET_ID cfg))
          [[JStr (toLocaleString ev TIMEZONE (clock ev (trace s @ [Entered OrderLedger m]))),
            name, phone,
            JStr (case pstrs of [] \<Rightarrow> []
                  | x # rest \<Rightarrow> x @ concat (map (\<lambda>y. '', '' @ y) rest)),
            JStr (case qstrs of [] \<Rightarrow> []
                  | x # rest \<Rightarrow> x @ concat (map (\<lambda>y. '', '' @ y) rest)),
            total, special, urgency,
            JStr (m_body m), JStr (m_id m), JStr ''Pending'']]]"
proof -
  from assms have t: "fst (logOrderToSheet cfg ev orderData m s) = Inr True"
    and s': "s' = snd (logOrderToSheet cfg ev orderData m s)" by simp_all
  let ?ts = "toLocaleString ev TIMEZONE (clock ev (trace s @ [Entered OrderLedger m]))"
  from ledger_True[OF t] obtain row where
    r: "order_row ?ts orderData m = Inr row" and
    tr: "snd (logOrderToSheet cfg ev orderData m s) =
       s\<lparr>trace := trace s @ [Entered OrderLedger m,
          Clock_read (clock ev (trace s @ [Entered OrderLedger m])),
          Sheets_append (str_of (GOOGLE_SHEET_ID cfg)) [row], Console Order_logged_to_Sheets]\<rparr>"
    by blast
  have f: "filter is_Sheets_append (new_events s s') =
      [Sheets_append (str_of (GOOGLE_SHEET_ID cfg)) [row]]"
    using tr s' by (simp add: new_events_def)
  from order_row_Inr[OF r] obtain name phone ps qs pstrs qstrs total special urgency where
    g: "get_prop orderData ''customerName'' = Inr name"
      "get_prop orderData ''customerPhone'' = Inr phone"
      "get_prop orderData ''products'' = Inr (JArr ps)"
      "get_prop orderData ''quantities'' = Inr (JArr qs)"
      "get_prop orderData ''totalAmount'' = Inr total"
      "get_prop orderData ''specialRequests'' = Inr special"
      "get_prop orderData ''urgency'' = Inr urgency"
    and e: "elem_strings ps = Inr pstrs" "elem_strings qs = Inr qstrs"
    and row: "row = [JStr ?ts, name, phone, JStr (join_strs '', '' pstrs),
            JStr (join_strs '', '' qstrs), total, special, urgency,
            JStr (m_body m), JStr (m_id m), JStr ''Pending'']"
    by blast
  have p: "\<forall>xs. ps = map JStr xs \<longrightarrow> pstrs = xs"
    using e(1) by (auto simp: elem_strings_strs)
  have q: "\<forall>xs. qs = map JStr xs \<longrightarrow> qstrs = xs"
    using e(2) by (auto simp: elem_strings_strs)
  have f': "filter is_Sheets_append (new_events s s') =
       [Sheets_append (str_of (GOOGLE_SHEET_ID cfg))
          [[JStr ?ts, name, phone,
            JStr (case pstrs of [] \<Rightarrow> []
                  | x # rest \<Rightarrow> x @ concat (map (\<lambda>y. '', '' @ y) rest)),
            JStr (case qstrs of [] \<Rightarrow> []
                  | x # rest \<Rightarrow> x @ concat (map (\<lambda>y. '', '' @ y) rest)),
            total, special, urgency,
            JStr (m_body m), JStr (m_id m), JStr ''Pending'']]]"
    using f row join_strs_closed[of "'', ''" pstrs] join_strs_closed[of "'', ''" qstrs]
    by simp
  from g e p q f' show ?thesis by blast
qed

text \<open>
  An order of two products and two quantities with the ledger up: the columns read
  \<open>oysters, clams\<close> and \<open>2 dozen, 3 lbs\<close>.
\<close>

theorem ledger_row_layout_witness:
  "logOrderToSheet sample_cfg (sample_env Get_rejected [] True True)
      (JObj [(''isOrder'', JBool True), (''customerName'', JStr ''Jane''),
             (''customerPhone'', JStr ''555-1234''),
             (''products'', JArr [JStr ''oysters'', JStr ''clams'']),
             (''quantities'', JArr [JStr ''2 dozen'', JStr ''3 lbs'']),
             (''totalAmount'', JStr ''TBD''), (''specialRequests'', JNull),
             (''urgency'', JStr ''urgent'')])
      msg_order (sample_sys {}) =
     (Inr True, \<lparr>processedMessageIds = {}, sheets = True, lastProcessedTime = 900,
        trace = [Entered OrderLedger msg_order, Clock_read 1001,
          Sheets_append ''sheet-1''
            [[JStr ''1/5/2026, 9:00:00 AM'', JStr ''Jane'', JStr ''555-1234'',
              JStr ''oysters, clams'', JStr ''2 dozen, 3 lbs'', JStr ''TBD'', JNull,
              JStr ''urgent'',
              JStr ''2 dozen oysters for pickup tomorrow, this is Jane 555-1234'',
              JStr ''m1'', JStr ''Pending'']],
          Console Order_logged_to_Sheets]\<rparr>)"
  using ledger_row_layout[of sample_cfg "sample_env Get_rejected [] True True"
      "JObj [(''isOrder'', JBool True), (''customerName'', JStr ''Jane''),
             (''customerPhone'', JStr ''555-1234''),
             (''products'', JArr [JStr ''oysters'', JStr ''clams'']),
             (''quantities'', JArr [JStr ''2 dozen'', JStr ''3 lbs'']),
             (''totalAmount'', JStr ''TBD''), (''specialRequests'', JNull),
             (''urgency'', JStr ''urgent'')]"
      msg_order "sample_sys {}"]
  by (simp add: comp_defs run_defs sample_defs Let_def)

subsection \<open>The dedup set only grows\<close>

text \<open>
  Claim C9. No operation of the service removes an id from \<^verbatim>\<open>processedMessageIds\<close>:
  over any sequence of runs and header setups, from any state, the set before is a
  subset of the set after.
\<close>

theorem dedup_set_monotone:
  "processedMessageIds s \<subseteq> processedMessageIds (perform_all cfg ev ops s)"
  using step_rel_perform_all[of s cfg ev ops] by (simp add: step_rel_def)

text \<open>
  Two runs with a header setup between them, from a set that holds \<open>m0\<close>, on a listing
  of an inbound and an outbound message: \<open>m0\<close> stays and both ids join it.
\<close>

theorem dedup_set_monotone_witness:
  "{''m0''} \<subseteq> processedMessageIds (perform_all sample_cfg
      (sample_env (Get_resolved (Some [msg_order, msg_reply])) [] True True)
      [Run, Setup_sheets, Run] (sample_sys {''m0''})) \<and>
   processedMessageIds (perform_all sample_cfg
      (sample_env (Get_resolved (Some [msg_order, msg_reply])) [] True True)
      [Run, Setup_sheets, Run] (sample_sys {''m0''})) = {''m0'', ''m1'', ''m2''}"
  using dedup_set_monotone[of "sample_sys {''m0''}" sample_cfg
      "sample_env (Get_resolved (Some [msg_order, msg_reply])) [] True True"
      "[Run, Setup_sheets, Run]"]
  by (simp add: comp_defs run_defs sample_defs Let_def insert_commute)

subsection \<open>The sinks never raise\<close>

text \<open>
  Claim C10. \<^verbatim>\<open>logOrderToSheet\<close> and \<^verbatim>\<open>sendSlackNotification\<close> return a boolean for every
  order judgment (any JSON value, null and undefined included), message and state,
  and never raise: whatever their \<^verbatim>\<open>try\<close> block raises is answered with false. In
  particular the ledger and the alert return false when \<open>products\<close> or \<open>quantities\<close>
  is not an array, and the alert returns false when \<open>urgency\<close> is not a string.
\<close>

theorem sinks_return_boolean:
  "(\<exists>b. fst (logOrderToSheet cfg ev orderData m s) = Inr b) \<and>
   (\<exists>b. fst (sendSlackNotification cfg ev orderData m s) = Inr b) \<and>
   (\<forall>e. fst (logOrderToSheet_try cfg ev orderData m (snd (emit (Entered OrderLedger m) s))) = Inl e
      \<longrightarrow> fst (logOrderToSheet cfg ev orderData m s) = Inr False) \<and>
   (\<forall>e. fst (sendSlackNotification_try cfg ev orderData m
              (snd (emit (Entered AlertChannel m) s))) = Inl e
      \<longrightarrow> fst (sendSlackNotification cfg ev orderData m s) = Inr False) \<and>
   ((\<forall>xs. get_prop orderData ''products'' \<noteq> Inr (JArr xs)) \<or>
    (\<forall>xs. get_prop orderData ''quantities'' \<noteq> Inr (JArr xs))
      \<longrightarrow> fst (logOrderToSheet cfg ev orderData m s) = Inr False \<and>
          fst (sendSlackNotification cfg ev orderData m s) = Inr False) \<and>
   ((\<forall>u. get_prop orderData ''urgency'' \<noteq> Inr (JStr u))
      \<longrightarrow> fst (sendSlackNotification cfg ev orderData m s) = Inr False)"
proof -
  obtain b1 where 1: "fst (logOrderToSheet cfg ev orderData m s) = Inr b1"
    using ledger_shape[of cfg ev orderData m s] by auto
  obtain b2 where 2: "fst (sendSlackNotification cfg ev orderData m s) = Inr b2"
    using alert_shape[of cfg ev orderData m s] by auto
  have 3: "\<forall>e. fst (logOrderToSheet_try cfg ev orderData m (snd (emit (Entered OrderLedger m) s))) = Inl e
      \<longrightarrow> fst (logOrderToSheet cfg ev orderData m s) = Inr False"
    by (simp add: ledger_result)
  have 4: "\<forall>e. fst (sendSlackNotification_try cfg ev orderData m
              (snd (emit (Entered AlertChannel m) s))) = Inl e
      \<longrightarrow> fst (sendSlackNotification cfg ev orderData m s) = Inr False"
    by (simp add: alert_result)
  have 5: "\<exists>ps qs. get_prop orderData ''products'' = Inr (JArr ps) \<and>
       get_prop orderData ''quantities'' = Inr (JArr qs)" if "b1"
  proof -
    from 1 that have "fst (logOrderToSheet cfg ev orderData m s) = Inr True" by simp
    from ledger_True[OF this] obtain row where
      "order_row (toLocaleString ev TIMEZONE (clock ev (trace s @ [Entered OrderLedger m])))
         orderData m = Inr row"
      by blast
    from order_row_Inr[OF this] show ?thesis by blast
  qed
  have 6: "\<exists>ps qs u. get_prop orderData ''products'' = Inr (JArr ps) \<and>
       get_prop orderData ''quantities'' = Inr (JArr qs) \<and>
       get_prop orderData ''urgency'' = Inr (JStr u)" if "b2"
  proof -
    from 2 that have "fst (sendSlackNotification cfg ev orderData m s) = Inr True" by simp
    from alert_True[OF this] obtain p where "slack_payload ev orderData m = Inr p"
      by blast
    from slack_payload_Inr[OF this] show ?thesis .
  qed
  from 5 have 7: "(\<forall>xs. get_prop orderData ''products'' \<noteq> Inr (JArr xs)) \<or>
    (\<forall>xs. get_prop orderData ''quantities'' \<noteq> Inr (JArr xs)) \<Longrightarrow> \<not> b1"
    by auto
  from 6 have 8: "(\<forall>xs. get_prop orderData ''products'' \<noteq> Inr (JArr xs)) \<or>
    (\<forall>xs. get_prop orderData ''quantities'' \<noteq> Inr (JArr xs)) \<or>
    (\<forall>u. get_prop orderData ''urgency'' \<noteq> Inr (JStr u)) \<Longrightarrow> \<not> b2"
    by auto
  show ?thesis
    using 1 2 3 4 7 8 by auto
qed

text \<open>
  A judgment whose \<open>products\<close> is a string and whose \<open>urgency\<close> is a number, and the
  judgment null: both sinks answer false. The well-formed sample order, for
  comparison: the ledger answers true, and the alert answers false when the webhook
  rejects the request.
\<close>

theorem sinks_return_boolean_witness:
  "fst (logOrderToSheet sample_cfg (sample_env Get_rejected [] True True)
          (JObj [(''isOrder'', JBool True), (''products'', JStr ''oysters''),
                 (''urgency'', JNum ''5'')]) msg_order (sample_sys {})) = Inr False \<and>
   fst (sendSlackNotification sample_cfg (sample_env Get_rejected [] True True)
          (JObj [(''isOrder'', JBool True), (''products'', JStr ''oysters''),
                 (''urgency'', JNum ''5'')]) msg_order (sample_sys {})) = Inr False \<and>
   fst (logOrderToSheet sample_cfg (sample_env Get_rejected [] True True) JNull msg_order
          (sample_sys {})) = Inr False \<and>
   fst (sendSlackNotification sample_cfg (sample_env Get_rejected [] True True) JNull msg_order
          (sample_sys {})) = Inr False \<and>
   fst (logOrderToSheet sample_cfg (sample_env Get_rejected [] True True) order_json msg_order
          (sample_sys {})) = Inr True \<and>
   fst (sendSlackNotification sample_cfg (sample_env Get_rejected [] True False) order_json
          msg_order (sample_sys {})) = Inr False"
  using sinks_return_boolean[of sample_cfg "sample_env Get_rejected [] True True"
      "JObj [(''isOrder'', JBool True), (''products'', JStr ''oysters''),
             (''urgency'', JNum ''5'')]" msg_order "sample_sys {}"]
  by (simp add: comp_defs run_defs sample_defs Let_def)

end
